theory Spec2Isabelle
  imports Complex_Main "HOL-Library.AList"
begin

section \<open>Configuration (config.py)\<close>

text \<open>
  \<^verbatim>\<open>FALLBACK_MODEL_ID\<close> is a literal of config.py. \<^verbatim>\<open>DEFAULT_MODEL_ID\<close> is
  \<^verbatim>\<open>str(BASE_DIR / "Aurel_diffusers")\<close>, so it depends on the directory the program is
  installed in; that directory is the parameter \<open>base_dir\<close> (not the filesystem root).
  \<^verbatim>\<open>USER_MODELS\<close> is the table of config.py, a dict kept as an association list.
\<close>

definition FALLBACK_MODEL_ID :: string where
  "FALLBACK_MODEL_ID = ''runwayml/stable-diffusion-v1-5''"

definition DEFAULT_MODEL_ID :: "string \<Rightarrow> string" where
  "DEFAULT_MODEL_ID base_dir = base_dir @ ''/Aurel_diffusers''"

definition USER_MODELS :: "string \<Rightarrow> (string \<times> string) list" where
  "USER_MODELS base_dir =
     [(''default'', DEFAULT_MODEL_ID base_dir), (''user_123'', DEFAULT_MODEL_ID base_dir)]"

section \<open>Model loading and caching (model_service.py)\<close>

text \<open>
  Exceptions are values. \<open>str_of\<close> is Python's \<^verbatim>\<open>str(e)\<close>. \<open>Raised\<close> stands for an
  exception of a library the program calls (diffusers, torch, the file system).
\<close>

datatype exn = Exception string | ValueError string | Raised string

fun str_of :: "exn \<Rightarrow> string" where
  "str_of (Exception d) = d"
| "str_of (ValueError d) = d"
| "str_of (Raised d) = d"

text \<open>
  The body of the \<^verbatim>\<open>try\<close> of \<^verbatim>\<open>load_model\<close> calls the diffusers library:
  \<^verbatim>\<open>from_pretrained\<close>, the move to the device and the memory optimisation. What it does is
  given by the environment: \<open>env k m\<close> is the outcome of the attempt number \<open>k\<close> (counted
  from 0 over the life of the process) when it is made on the identifier \<open>m\<close>; it either
  yields a pipeline or raises an exception with a description.

  A pipeline is a Python object. \<open>pipe_id\<close> is its identity (two loads never give the same
  object: the identity is the number of the attempt that built it) and \<open>pretrained\<close> is
  the identifier it was actually loaded from.
\<close>

datatype outcome = Loaded | Raises string

type_synonym loader = "nat \<Rightarrow> string \<Rightarrow> outcome"

record pipe =
  pipe_id :: nat
  pretrained :: string

text \<open>
  The state of \<^verbatim>\<open>ModelService\<close>: the dict \<^verbatim>\<open>model_cache\<close>, and \<open>loads\<close>, the
  identifiers on which a load was attempted so far, oldest first (the trace of the calls
  of \<^verbatim>\<open>from_pretrained\<close>).
\<close>

record model_service =
  model_cache :: "(string \<times> pipe) list"
  loads :: "string list"

definition get_model_id :: "(string \<times> string) list \<Rightarrow> string \<Rightarrow> string \<Rightarrow> string" where
  "get_model_id user_models dflt user_id =
     (case map_of user_models user_id of Some m \<Rightarrow> m | None \<Rightarrow> dflt)"

function load_model :: "loader \<Rightarrow> string \<Rightarrow> model_service \<Rightarrow> (exn + pipe) \<times> model_service" where
  "load_model env model_id s =
     (case env (length (loads s)) model_id of
        Loaded \<Rightarrow>
          (Inr \<lparr>pipe_id = length (loads s), pretrained = model_id\<rparr>,
           s\<lparr>loads := loads s @ [model_id]\<rparr>)
      | Raises e \<Rightarrow>
          if model_id \<noteq> FALLBACK_MODEL_ID
          then load_model env FALLBACK_MODEL_ID (s\<lparr>loads := loads s @ [model_id]\<rparr>)
          else (Inl (Exception (''Failed to load model '' @ model_id @ '': '' @ e)),
                s\<lparr>loads := loads s @ [model_id]\<rparr>))"
  by pat_completeness auto
termination
  by (relation "measure (\<lambda>(env, model_id, s). if model_id = FALLBACK_MODEL_ID then 0 else 1)") auto

declare load_model.simps [simp del]

definition get_or_load_model ::
  "loader \<Rightarrow> (string \<times> string) list \<Rightarrow> string \<Rightarrow> string \<Rightarrow> model_service
     \<Rightarrow> (exn + pipe \<times> string) \<times> model_service" where
  "get_or_load_model env user_models dflt user_id s =
     (let model_id = get_model_id user_models dflt user_id in
      case map_of (model_cache s) model_id of
        Some p \<Rightarrow> (Inr (p, model_id), s)
      | None \<Rightarrow>
          (case load_model env model_id s of
             (Inl e, s1) \<Rightarrow> (Inl e, s1)
           | (Inr p, s1) \<Rightarrow>
               (Inr (p, model_id),
                s1\<lparr>model_cache := AList.update model_id p (model_cache s1)\<rparr>)))"

text \<open>
  \<^verbatim>\<open>generate_image\<close> runs the pipeline, which is the diffusers library again:
  \<open>run p prompt\<close> is the image it returns, or the exception it raises. The function
  returns the image together with the identifier \<^verbatim>\<open>get_or_load_model\<close> gave it.
\<close>

definition generate_image ::
  "loader \<Rightarrow> (pipe \<Rightarrow> string \<Rightarrow> exn + 'img) \<Rightarrow> (string \<times> string) list \<Rightarrow> string \<Rightarrow> string
     \<Rightarrow> string \<Rightarrow> model_service \<Rightarrow> (exn + 'img \<times> string) \<times> model_service" where
  "generate_image env run user_models dflt user_id prompt s =
     (case get_or_load_model env user_models dflt user_id s of
        (Inl e, s1) \<Rightarrow> (Inl e, s1)
      | (Inr (p, model_id), s1) \<Rightarrow>
          (case run p prompt of
             Inl e \<Rightarrow> (Inl e, s1)
           | Inr img \<Rightarrow> (Inr (img, model_id), s1)))"

definition clear_cache :: "model_service \<Rightarrow> model_service" where
  "clear_cache s = s\<lparr>model_cache := []\<rparr>"

definition get_loaded_models_count :: "model_service \<Rightarrow> nat" where
  "get_loaded_models_count s = length (model_cache s)"

text \<open>
  The calls a client can make on \<^verbatim>\<open>ModelService\<close> other than \<^verbatim>\<open>clear_cache\<close>, and the
  state they leave, whatever they return or raise.
\<close>

datatype cache_call =
    GetModelId string
  | LoadModel string
  | GetOrLoad string
  | GenerateImage string string
  | LoadedCount

fun perform ::
  "loader \<Rightarrow> (pipe \<Rightarrow> string \<Rightarrow> exn + 'img) \<Rightarrow> (string \<times> string) list \<Rightarrow> string \<Rightarrow> cache_call
     \<Rightarrow> model_service \<Rightarrow> model_service" where
  "perform env run user_models dflt (GetModelId user_id) s = s"
| "perform env run user_models dflt (LoadModel model_id) s = snd (load_model env model_id s)"
| "perform env run user_models dflt (GetOrLoad user_id) s =
     snd (get_or_load_model env user_models dflt user_id s)"
| "perform env run user_models dflt (GenerateImage user_id prompt) s =
     snd (generate_image env run user_models dflt user_id prompt s)"
| "perform env run user_models dflt LoadedCount s = s"

fun perform_all ::
  "loader \<Rightarrow> (pipe \<Rightarrow> string \<Rightarrow> exn + 'img) \<Rightarrow> (string \<times> string) list \<Rightarrow> string
     \<Rightarrow> cache_call list \<Rightarrow> model_service \<Rightarrow> model_service" where
  "perform_all env run user_models dflt [] s = s"
| "perform_all env run user_models dflt (c # cs) s =
     perform_all env run user_models dflt cs (perform env run user_models dflt c s)"

section \<open>JSON values, metadata files and the stored data\<close>

text \<open>
  A JSON value as Python's \<^verbatim>\<open>json\<close> module reads and writes it. A dict is an association
  list: \<open>AList.update\<close> replaces the value of a key that is present and appends a new key
  at the end, as assignment to a Python dict does, and \<open>map_of\<close> looks a key up.
\<close>

datatype json =
    JNull
  | JBool bool
  | JInt int
  | JFloat rat
  | JStr string
  | JArr "json list"
  | JObj "(string \<times> json) list"

type_synonym dict = "(string \<times> json) list"

text \<open>\<^verbatim>\<open>d.get(k)\<close> and \<^verbatim>\<open>d.get(k, default)\<close>.\<close>

definition dict_get :: "dict \<Rightarrow> string \<Rightarrow> json" where
  "dict_get d k = (case map_of d k of Some v \<Rightarrow> v | None \<Rightarrow> JNull)"

definition dict_get_default :: "dict \<Rightarrow> string \<Rightarrow> json \<Rightarrow> json" where
  "dict_get_default d k dflt = (case map_of d k of Some v \<Rightarrow> v | None \<Rightarrow> dflt)"

text \<open>
  The content of a \<^verbatim>\<open>metadata.json\<close>: a JSON object whose key \<^verbatim>\<open>custom_metadata\<close>, when
  present, holds an object, as in every file the program writes. \<open>toplevel\<close> holds the
  other keys; \<open>custom_metadata = None\<close> says that the key is absent.
\<close>

record metadata =
  toplevel :: dict
  custom_metadata :: "dict option"

definition custom_or_empty :: "metadata \<Rightarrow> dict" where
  "custom_or_empty md = (case custom_metadata md of Some cm \<Rightarrow> cm | None \<Rightarrow> [])"

text \<open>
  The directory \<^verbatim>\<open>USERS_DIR/<user_id>/training_images/<model_identifier>/\<close>: the files of
  its subdirectory \<^verbatim>\<open>images/\<close> (name and content, a byte string) and its
  \<^verbatim>\<open>metadata.json\<close>, if there is one.
\<close>

record training_dir =
  images :: "(string \<times> string) list"
  metadata_json :: "metadata option"

text \<open>The two lines \<^verbatim>\<open>update_training_status\<close> writes to the logger.\<close>

datatype log_entry =
    MetadataNotFound string
  | StatusLogged string string int string

text \<open>
  The state the training and storage services work on:
  \<^item> \<open>files\<close>: the training directories that exist, keyed by user and model identifier
    (both taken to be single path components), in the order a directory scan meets them;
  \<^item> \<open>active_jobs\<close>: the dict of \<^verbatim>\<open>TrainingService\<close>;
  \<^item> \<open>ticks\<close>: how many times \<^verbatim>\<open>datetime.now()\<close> was read so far;
  \<^item> \<open>logged\<close>: the lines \<^verbatim>\<open>update_training_status\<close> logged so far, oldest first.
\<close>

record training_service =
  files :: "((string \<times> string) \<times> training_dir) list"
  active_jobs :: "(string \<times> dict) list"
  ticks :: nat
  logged :: "log_entry list"

text \<open>
  Where external code may raise during a training run: creating the output directory,
  the imports, loading the model components, building the dataset and the data loader,
  setting up the optimizer, the computation of training step \<open>g\<close>, saving the pipeline.
\<close>

datatype stage = Mkdir | Imports | LoadComponents | BuildDataset | Setup | Step nat | Save

text \<open>
  What the program gets from outside:
  \<^item> \<open>users_dir\<close>: \<^verbatim>\<open>str(USERS_DIR)\<close>;
  \<^item> \<open>now k\<close>: the text of reading number \<open>k\<close> of \<^verbatim>\<open>datetime.now().isoformat()\<close>;
  \<^item> \<open>fault st\<close>: the description of the exception external code raises at that stage, or
    \<open>None\<close> when it raises none;
  \<^item> \<open>len_dataloader\<close>: \<^verbatim>\<open>len(dataloader)\<close>, the number of batches of an epoch;
  \<^item> \<open>loss_text g\<close>: the loss of training step \<open>g\<close> as the log message formats it;
  \<^item> \<open>rnd\<close>: the rounding of the platform's floating point arithmetic, which maps the
    exact result of a division or a multiplication to the float the operation returns.
\<close>

record train_env =
  users_dir :: string
  now :: "nat \<Rightarrow> string"
  fault :: "stage \<Rightarrow> string option"
  len_dataloader :: nat
  loss_text :: "nat \<Rightarrow> string"
  rnd :: "rat \<Rightarrow> rat"

subsection \<open>Formatting\<close>

function show_nat :: "nat \<Rightarrow> string" where
  "show_nat n =
     (if n < 10 then [''0123456789'' ! n]
      else show_nat (n div 10) @ [''0123456789'' ! (n mod 10)])"
  by pat_completeness auto
termination
  by (relation "measure (\<lambda>n. n)") auto

declare show_nat.simps [simp del]

definition show_int :: "int \<Rightarrow> string" where
  "show_int i = (if i < 0 then ''-'' @ show_nat (nat (- i)) else show_nat (nat i))"

text \<open>The format \<^verbatim>\<open>{idx:03d}\<close>.\<close>

definition pad3 :: "nat \<Rightarrow> string" where
  "pad3 n = replicate (3 - length (show_nat n)) (CHR ''0'') @ show_nat n"

definition ends_with :: "string \<Rightarrow> string \<Rightarrow> bool" where
  "ends_with name ext = (length ext \<le> length name \<and> drop (length name - length ext) name = ext)"

text \<open>Python's \<^verbatim>\<open>int(x)\<close> on a float: truncation towards zero.\<close>

definition trunc :: "rat \<Rightarrow> int" where
  "trunc x = (if 0 \<le> x then \<lfloor>x\<rfloor> else \<lceil>x\<rceil>)"

definition training_dir_path :: "train_env \<Rightarrow> string \<Rightarrow> string \<Rightarrow> string" where
  "training_dir_path w user_id model_identifier =
     users_dir w @ ''/'' @ user_id @ ''/training_images/'' @ model_identifier"

definition output_model_dir :: "train_env \<Rightarrow> string \<Rightarrow> string \<Rightarrow> string" where
  "output_model_dir w user_id model_identifier =
     users_dir w @ ''/'' @ user_id @ ''/models/'' @ model_identifier"

definition metadata_at :: "training_service \<Rightarrow> string \<Rightarrow> string \<Rightarrow> metadata option" where
  "metadata_at s user_id model_identifier =
     (case map_of (files s) (user_id, model_identifier) of
        None \<Rightarrow> None
      | Some d \<Rightarrow> metadata_json d)"

text \<open>The \<^verbatim>\<open>custom_metadata\<close> of the record stored for a user and a model (empty when there is none).\<close>

definition custom_at :: "training_service \<Rightarrow> string \<Rightarrow> string \<Rightarrow> dict" where
  "custom_at s user_id model_identifier =
     (case metadata_at s user_id model_identifier of
        None \<Rightarrow> []
      | Some md \<Rightarrow> custom_or_empty md)"

section \<open>Training jobs (training_service.py)\<close>

text \<open>
  \<^verbatim>\<open>update_training_status\<close>. When there is no \<^verbatim>\<open>metadata.json\<close> at the place the
  user and model identifiers name, it logs an error and returns. Otherwise it reads the
  file, sets the keys of \<^verbatim>\<open>custom_metadata\<close>, writes the file back and replaces the entry
  of \<^verbatim>\<open>active_jobs\<close>. \<^verbatim>\<open>if error:\<close> holds for a string that is not empty.
\<close>

definition update_training_status ::
  "train_env \<Rightarrow> string \<Rightarrow> string \<Rightarrow> string \<Rightarrow> string \<Rightarrow> int \<Rightarrow> string \<Rightarrow> string option
     \<Rightarrow> training_service \<Rightarrow> training_service" where
  "update_training_status w user_id model_identifier training_id status progress message error s =
     (case map_of (files s) (user_id, model_identifier) of
        None \<Rightarrow> s\<lparr>logged := logged s @ [MetadataNotFound training_id]\<rparr>
      | Some d \<Rightarrow>
         (case metadata_json d of
            None \<Rightarrow> s\<lparr>logged := logged s @ [MetadataNotFound training_id]\<rparr>
          | Some md \<Rightarrow>
             (let cm0 = custom_or_empty md;
                  cm1 = AList.update ''status'' (JStr status) cm0;
                  cm2 = AList.update ''progress'' (JInt progress) cm1;
                  cm3 = AList.update ''message'' (JStr message) cm2;
                  cm4 = AList.update ''last_updated'' (JStr (now w (ticks s))) cm3;
                  t1 = Suc (ticks s);
                  starts = (status = ''running'' \<and> map_of cm4 ''started_at'' = None);
                  cm5 = (if starts then AList.update ''started_at'' (JStr (now w t1)) cm4 else cm4);
                  t2 = (if starts then Suc t1 else t1);
                  ends = (status = ''completed'' \<or> status = ''failed'');
                  cm6 = (if ends then AList.update ''completed_at'' (JStr (now w t2)) cm5 else cm5);
                  t3 = (if ends then Suc t2 else t2);
                  cm7 = (case error of
                           None \<Rightarrow> cm6
                         | Some e \<Rightarrow> if e \<noteq> [] then AList.update ''error'' (JStr e) cm6 else cm6)
              in s\<lparr>files := AList.update (user_id, model_identifier)
                               (d\<lparr>metadata_json := Some (md\<lparr>custom_metadata := Some cm7\<rparr>)\<rparr>)
                               (files s),
                    active_jobs := AList.update training_id
                               [(''training_id'', JStr training_id),
                                (''status'', JStr status),
                                (''progress'', JInt progress),
                                (''message'', JStr message),
                                (''model_identifier'', JStr model_identifier),
                                (''user_id'', JStr user_id)]
                               (active_jobs s),
                    ticks := t3,
                    logged := logged s @ [StatusLogged training_id status progress message]\<rparr>)))"

text \<open>
  \<^verbatim>\<open>get_training_status\<close>: the entry of \<^verbatim>\<open>active_jobs\<close> when there is one, else the
  first stored record whose \<^verbatim>\<open>custom_metadata\<close> holds the training id (\<open>scan\<close>, the loop
  over the directories), else \<^verbatim>\<open>None\<close>.
\<close>

fun scan :: "string \<Rightarrow> ((string \<times> string) \<times> training_dir) list \<Rightarrow> dict option" where
  "scan training_id [] = None"
| "scan training_id ((k, d) # rest) =
     (case metadata_json d of
        None \<Rightarrow> scan training_id rest
      | Some md \<Rightarrow>
          if map_of (custom_or_empty md) ''training_id'' = Some (JStr training_id)
          then Some [(''training_id'', JStr training_id),
                     (''status'', dict_get_default (custom_or_empty md) ''status'' (JStr ''unknown'')),
                     (''model_identifier'', dict_get (toplevel md) ''model_identifier''),
                     (''user_id'', dict_get (toplevel md) ''user_id''),
                     (''progress'', dict_get_default (custom_or_empty md) ''progress'' (JInt 0)),
                     (''message'', dict_get_default (custom_or_empty md) ''message'' (JStr [])),
                     (''started_at'', dict_get (custom_or_empty md) ''started_at''),
                     (''completed_at'', dict_get (custom_or_empty md) ''completed_at'')]
          else scan training_id rest)"

definition get_training_status :: "string \<Rightarrow> training_service \<Rightarrow> dict option" where
  "get_training_status training_id s =
     (case map_of (active_jobs s) training_id of
        Some job \<Rightarrow> Some job
      | None \<Rightarrow> scan training_id (files s))"

text \<open>
  The route \<^verbatim>\<open>GET /train/{training_id}/status\<close> of main.py reads the field \<^verbatim>\<open>error\<close> of
  its response with \<^verbatim>\<open>status_info.get("error")\<close>.
\<close>

definition status_response_error :: "dict \<Rightarrow> json" where
  "status_response_error status_info = dict_get status_info ''error''"

subsection \<open>The training run\<close>

text \<open>
  The image files a glob of \<^verbatim>\<open>start_training\<close> counts, and those the dataset of
  \<^verbatim>\<open>_train_dreambooth\<close> holds.
\<close>

definition count_images :: "(string \<times> string) list \<Rightarrow> nat" where
  "count_images imgs =
     length (filter (\<lambda>n. ends_with n ''.png'') (map fst imgs))
     + length (filter (\<lambda>n. ends_with n ''.jpg'') (map fst imgs))
     + length (filter (\<lambda>n. ends_with n ''.jpeg'') (map fst imgs))"

definition len_dataset :: "training_service \<Rightarrow> string \<Rightarrow> string \<Rightarrow> nat" where
  "len_dataset s user_id model_identifier =
     (case map_of (files s) (user_id, model_identifier) of
        None \<Rightarrow> 0
      | Some d \<Rightarrow>
          count_images (images d)
          + length (filter (\<lambda>n. ends_with n ''.webp'') (map fst (images d))))"

text \<open>
  \<^verbatim>\<open>_train_lora\<close>: three status updates, then the result dict. The training command it
  prepares is not run by the source.
\<close>

definition train_lora ::
  "train_env \<Rightarrow> string \<Rightarrow> string \<Rightarrow> string \<Rightarrow> training_service \<Rightarrow> (exn + dict) \<times> training_service" where
  "train_lora w user_id model_identifier training_id s =
     (let s1 = update_training_status w user_id model_identifier training_id
                 ''running'' 15 ''Loading base model...'' None s;
          s2 = update_training_status w user_id model_identifier training_id
                 ''running'' 20 ''Training in progress (this may take 30-60 minutes)...'' None s1;
          s3 = update_training_status w user_id model_identifier training_id
                 ''completed'' 100
                 (''Training completed! Model saved to '' @ output_model_dir w user_id model_identifier)
                 None s2
      in (Inr [(''success'', JBool True),
               (''training_id'', JStr training_id),
               (''model_path'', JStr (output_model_dir w user_id model_identifier)),
               (''method'', JStr ''lora''),
               (''message'', JStr ''LoRA training placeholder (implementation pending)'')],
          s3))"

text \<open>
  The progress the training loop reports at step \<open>global_step\<close>:
  \<^verbatim>\<open>40 + int((global_step / num_steps) * 50)\<close>, a float division and a float multiplication.
\<close>

definition loop_progress :: "train_env \<Rightarrow> nat \<Rightarrow> int \<Rightarrow> int" where
  "loop_progress w global_step num_steps =
     40 + trunc (rnd w (rnd w (of_nat global_step / of_int num_steps) * 50))"

text \<open>
  The inner loop \<^verbatim>\<open>for batch in dataloader\<close>, with the number of batches left to run. It
  returns the new \<^verbatim>\<open>global_step\<close>, or the exception the computation of a step raised.
\<close>

fun batches ::
  "train_env \<Rightarrow> string \<Rightarrow> string \<Rightarrow> string \<Rightarrow> int \<Rightarrow> nat \<Rightarrow> nat \<Rightarrow> nat \<Rightarrow> training_service
     \<Rightarrow> (exn + nat) \<times> training_service" where
  "batches w user_id model_identifier training_id num_train_epochs epoch 0 global_step s =
     (Inr global_step, s)"
| "batches w user_id model_identifier training_id num_train_epochs epoch (Suc k) global_step s =
     (case fault w (Step (Suc global_step)) of
        Some e \<Rightarrow> (Inl (Raised e), s)
      | None \<Rightarrow>
          batches w user_id model_identifier training_id num_train_epochs epoch k (Suc global_step)
            (if Suc global_step mod 10 = 0
             then update_training_status w user_id model_identifier training_id ''running''
                    (loop_progress w (Suc global_step) (int (len_dataloader w) * num_train_epochs))
                    (''Training epoch '' @ show_nat (Suc epoch) @ ''/'' @ show_int num_train_epochs
                       @ '', step '' @ show_nat (Suc global_step) @ ''/''
                       @ show_int (int (len_dataloader w) * num_train_epochs)
                       @ '', loss: '' @ loss_text w (Suc global_step))
                    None s
             else s))"

text \<open>The outer loop \<^verbatim>\<open>for epoch in range(num_train_epochs)\<close>, with the number of epochs left.\<close>

fun epochs ::
  "train_env \<Rightarrow> string \<Rightarrow> string \<Rightarrow> string \<Rightarrow> int \<Rightarrow> nat \<Rightarrow> nat \<Rightarrow> nat \<Rightarrow> training_service
     \<Rightarrow> (exn + nat) \<times> training_service" where
  "epochs w user_id model_identifier training_id num_train_epochs 0 epoch global_step s =
     (Inr global_step, s)"
| "epochs w user_id model_identifier training_id num_train_epochs (Suc k) epoch global_step s =
     (case batches w user_id model_identifier training_id num_train_epochs epoch
             (len_dataloader w) global_step s of
        (Inl e, s1) \<Rightarrow> (Inl e, s1)
      | (Inr g1, s1) \<Rightarrow>
          epochs w user_id model_identifier training_id num_train_epochs k (Suc epoch) g1 s1)"

text \<open>The body of the \<^verbatim>\<open>try\<close> of \<^verbatim>\<open>_train_dreambooth\<close>.\<close>

definition train_dreambooth_try ::
  "train_env \<Rightarrow> string \<Rightarrow> string \<Rightarrow> string \<Rightarrow> int \<Rightarrow> training_service
     \<Rightarrow> (exn + dict) \<times> training_service" where
  "train_dreambooth_try w user_id model_identifier training_id num_train_epochs s =
     (let s1 = update_training_status w user_id model_identifier training_id
                 ''running'' 15 ''Loading base Stable Diffusion v1.5 model...'' None s
      in case fault w Imports of Some e \<Rightarrow> (Inl (Raised e), s1) | None \<Rightarrow>
     (let s2 = update_training_status w user_id model_identifier training_id
                 ''running'' 20 ''Loading model components (UNet, VAE, Text Encoder)...'' None s1
      in case fault w LoadComponents of Some e \<Rightarrow> (Inl (Raised e), s2) | None \<Rightarrow>
     (let s3 = update_training_status w user_id model_identifier training_id
                 ''running'' 30 ''Preparing training dataset...'' None s2
      in case fault w BuildDataset of Some e \<Rightarrow> (Inl (Raised e), s3) | None \<Rightarrow>
     (let s4 = update_training_status w user_id model_identifier training_id
                 ''running'' 40
                 (''Starting training on '' @ show_nat (len_dataset s3 user_id model_identifier)
                    @ '' images...'')
                 None s3
      in case fault w Setup of Some e \<Rightarrow> (Inl (Raised e), s4) | None \<Rightarrow>
     (case epochs w user_id model_identifier training_id num_train_epochs
             (nat num_train_epochs) 0 0 s4 of
        (Inl e, s5) \<Rightarrow> (Inl e, s5)
      | (Inr g, s5) \<Rightarrow>
     (let s6 = update_training_status w user_id model_identifier training_id
                 ''running'' 90 ''Training complete! Saving model...'' None s5
      in case fault w Save of Some e \<Rightarrow> (Inl (Raised e), s6) | None \<Rightarrow>
     (let s7 = update_training_status w user_id model_identifier training_id
                 ''completed'' 100
                 (''DreamBooth training completed successfully! Model saved to ''
                    @ output_model_dir w user_id model_identifier)
                 None s6
      in (Inr [(''success'', JBool True),
               (''training_id'', JStr training_id),
               (''model_path'', JStr (output_model_dir w user_id model_identifier)),
               (''method'', JStr ''dreambooth''),
               (''message'', JStr (''DreamBooth training completed! Use prompt '' @ [CHR 0x27]
                    @ model_identifier @ '' person'' @ [CHR 0x27] @ '' to generate images.''))],
          s7))))))))"

text \<open>
  \<^verbatim>\<open>_train_dreambooth\<close>: its \<^verbatim>\<open>except\<close> records the failure with progress 0 and raises
  the exception again.
\<close>

definition train_dreambooth ::
  "train_env \<Rightarrow> string \<Rightarrow> string \<Rightarrow> string \<Rightarrow> int \<Rightarrow> training_service
     \<Rightarrow> (exn + dict) \<times> training_service" where
  "train_dreambooth w user_id model_identifier training_id num_train_epochs s =
     (case train_dreambooth_try w user_id model_identifier training_id num_train_epochs s of
        (Inl e, s1) \<Rightarrow>
          (Inl e, update_training_status w user_id model_identifier training_id
                    ''failed'' 0 ''Training failed'' (Some (str_of e)) s1)
      | (Inr r, s1) \<Rightarrow> (Inr r, s1))"

text \<open>
  The body of the \<^verbatim>\<open>try\<close> of \<^verbatim>\<open>start_training\<close>. The learning rate, the batch size and
  the resolution only reach the external training code, so they are no parameters here.
\<close>

definition start_training_try ::
  "train_env \<Rightarrow> string \<Rightarrow> string \<Rightarrow> string \<Rightarrow> int \<Rightarrow> bool \<Rightarrow> training_service
     \<Rightarrow> (exn + dict) \<times> training_service" where
  "start_training_try w user_id model_identifier training_id num_train_epochs use_lora s =
     (let s1 = update_training_status w user_id model_identifier training_id
                 ''running'' 5 ''Initializing training environment...'' None s
      in case map_of (files s1) (user_id, model_identifier) of
           None \<Rightarrow>
             (Inl (ValueError (''Training images directory not found: ''
                     @ training_dir_path w user_id model_identifier @ ''/images'')), s1)
         | Some d \<Rightarrow>
             if count_images (images d) < 10
             then (Inl (ValueError (''Insufficient training images: ''
                          @ show_nat (count_images (images d)) @ '' < 10'')), s1)
             else (case fault w Mkdir of
                     Some e \<Rightarrow> (Inl (Raised e), s1)
                   | None \<Rightarrow>
                      (let s2 = update_training_status w user_id model_identifier training_id
                                  ''running'' 10
                                  (''Preparing to train with '' @ show_nat (count_images (images d))
                                     @ '' images...'')
                                  None s1
                       in if use_lora
                          then train_lora w user_id model_identifier training_id s2
                          else train_dreambooth w user_id model_identifier training_id
                                 num_train_epochs s2)))"

text \<open>
  \<^verbatim>\<open>start_training\<close>: its \<^verbatim>\<open>except\<close> records the failure with progress 0 and the text
  of the exception, and raises the exception again.
\<close>

definition start_training ::
  "train_env \<Rightarrow> string \<Rightarrow> string \<Rightarrow> string \<Rightarrow> int \<Rightarrow> bool \<Rightarrow> training_service
     \<Rightarrow> (exn + dict) \<times> training_service" where
  "start_training w user_id model_identifier training_id num_train_epochs use_lora s =
     (case start_training_try w user_id model_identifier training_id num_train_epochs use_lora s of
        (Inl e, s1) \<Rightarrow>
          (Inl e, update_training_status w user_id model_identifier training_id
                    ''failed'' 0 ''Training failed'' (Some (str_of e)) s1)
      | (Inr r, s1) \<Rightarrow> (Inr r, s1))"

section \<open>Storing a training request (storage_service.py, main.py)\<close>

text \<open>
  Where external code may raise while a training request is stored: reading upload \<open>i\<close>,
  making the user's directory and walking it, making the training directory, opening the
  file of image \<open>i\<close> for writing, opening \<^verbatim>\<open>metadata.json\<close> for writing.
\<close>

datatype io_stage = ReadUpload nat | UserDirectory | TrainingDirectory | WriteImage nat | WriteMetadata

text \<open>
  What the storage side gets from outside:
  \<^item> \<open>io_fault st\<close>: the description of the exception the file system or the upload raises
    at that stage, or \<open>None\<close> when it raises none (an identifier that names no directory
    that can be made, or a file name whose directory is missing, shows here);
  \<^item> \<open>path_suffix name\<close>: pathlib's \<^verbatim>\<open>Path(name).suffix\<close>;
  \<^item> \<open>path_text parts\<close>: \<^verbatim>\<open>str\<close> of the pathlib path joined from these parts;
  \<^item> \<open>metadata_size md\<close>: the size in bytes of the \<^verbatim>\<open>metadata.json\<close> that holds \<open>md\<close>;
  \<^item> \<open>other_size user\<close>: the size in bytes of the files under the user's directory
    that are outside the training directories (models, logs, the user's own metadata).
\<close>

record storage_env =
  io_fault :: "io_stage \<Rightarrow> string option"
  path_suffix :: "string \<Rightarrow> string"
  path_text :: "string list \<Rightarrow> string"
  metadata_size :: "metadata \<Rightarrow> nat"
  other_size :: "string \<Rightarrow> nat"

text \<open>
  \<^verbatim>\<open>get_user_storage_size\<close>: the sizes of all files under the user's directory, which
  \<^verbatim>\<open>get_user_directory\<close> makes first. Of the stored data these are the image files and
  the \<^verbatim>\<open>metadata.json\<close> of each training directory of the user.
\<close>

definition dir_size :: "storage_env \<Rightarrow> training_dir \<Rightarrow> nat" where
  "dir_size e d =
     sum_list (map (\<lambda>img. length (snd img)) (images d))
     + (case metadata_json d of None \<Rightarrow> 0 | Some md \<Rightarrow> metadata_size e md)"

definition get_user_storage_size :: "storage_env \<Rightarrow> training_service \<Rightarrow> string \<Rightarrow> exn + nat" where
  "get_user_storage_size e s user_id =
     (case io_fault e UserDirectory of
        Some x \<Rightarrow> Inl (Raised x)
      | None \<Rightarrow>
          Inr (sum_list (map (\<lambda>kd. dir_size e (snd kd))
                 (filter (\<lambda>kd. fst (fst kd) = user_id) (AList.clearjunk (files s))))
               + other_size e user_id))"

definition max_user_storage :: nat where
  "max_user_storage = 5 * 1024 * 1024 * 1024"

definition validate_storage_limits ::
  "storage_env \<Rightarrow> training_service \<Rightarrow> string \<Rightarrow> nat \<Rightarrow> exn + bool" where
  "validate_storage_limits e s user_id additional_size_bytes =
     (case get_user_storage_size e s user_id of
        Inl x \<Rightarrow> Inl x
      | Inr current_size \<Rightarrow>
          if current_size + additional_size_bytes > max_user_storage then Inr False
          else Inr True)"

text \<open>
  \<^verbatim>\<open>get_model_training_directory\<close> makes the training directory and its \<^verbatim>\<open>images/\<close>
  when they are missing (\<^verbatim>\<open>exist_ok=True\<close>) and keeps what is there.
\<close>

definition get_model_training_directory ::
  "storage_env \<Rightarrow> string \<Rightarrow> string \<Rightarrow> training_service \<Rightarrow> exn + training_service" where
  "get_model_training_directory e user_id model_identifier s =
     (case io_fault e TrainingDirectory of
        Some x \<Rightarrow> Inl (Raised x)
      | None \<Rightarrow>
         (case map_of (files s) (user_id, model_identifier) of
            Some d \<Rightarrow> Inr s
          | None \<Rightarrow> Inr (s\<lparr>files := AList.update (user_id, model_identifier)
                                    \<lparr>images = [], metadata_json = None\<rparr> (files s)\<rparr>)))"

text \<open>
  The loop of \<^verbatim>\<open>save_training_images\<close> over \<^verbatim>\<open>enumerate(images)\<close>: it writes each
  image under its new name. It returns the files of \<^verbatim>\<open>images/\<close> as they are when it
  ends, and either \<^verbatim>\<open>saved_images\<close> and \<^verbatim>\<open>total_size\<close> or the exception raised when a
  file could not be opened, which leaves the images written before it in place.
\<close>

fun save_each ::
  "train_env \<Rightarrow> storage_env \<Rightarrow> string \<Rightarrow> string \<Rightarrow> nat \<Rightarrow> (string \<times> string) list
     \<Rightarrow> (string \<times> string) list \<Rightarrow> json list \<Rightarrow> nat
     \<Rightarrow> (exn + json list \<times> nat) \<times> (string \<times> string) list" where
  "save_each w e user_id model_identifier idx [] stored saved_images total_size =
     (Inr (saved_images, total_size), stored)"
| "save_each w e user_id model_identifier idx ((filename, content) # rest) stored saved_images
       total_size =
     (case io_fault e (WriteImage idx) of
        Some x \<Rightarrow> (Inl (Raised x), stored)
      | None \<Rightarrow>
          save_each w e user_id model_identifier (Suc idx) rest
            (AList.update (model_identifier @ ''_'' @ pad3 idx @ path_suffix e filename) content
               stored)
            (saved_images @
               [JObj [(''filename'',
                         JStr (model_identifier @ ''_'' @ pad3 idx @ path_suffix e filename)),
                      (''original_filename'', JStr filename),
                      (''size_bytes'', JInt (int (length content))),
                      (''path'',
                         JStr (path_text e
                           [users_dir w, user_id, ''training_images'', model_identifier,
                            ''images'',
                            model_identifier @ ''_'' @ pad3 idx @ path_suffix e filename]))]])
            (total_size + length content))"

text \<open>
  \<^verbatim>\<open>save_training_images\<close>. It opens \<^verbatim>\<open>metadata.json\<close> with \<^verbatim>\<open>open(path, "w")\<close>
  whether or not the file exists, and nothing in it looks at a record that is already
  there. \<^verbatim>\<open>metadata or {}\<close> is the empty dict for \<^verbatim>\<open>None\<close>. The clock is read before
  \<^verbatim>\<open>metadata.json\<close> is opened.
\<close>

definition save_training_images ::
  "train_env \<Rightarrow> storage_env \<Rightarrow> string \<Rightarrow> string \<Rightarrow> (string \<times> string) list \<Rightarrow> dict option
     \<Rightarrow> training_service \<Rightarrow> (exn + dict) \<times> training_service" where
  "save_training_images w e user_id model_identifier imgs metadata s =
     (case get_model_training_directory e user_id model_identifier s of
        Inl x \<Rightarrow> (Inl x, s)
      | Inr s1 \<Rightarrow>
         (let d = (case map_of (files s1) (user_id, model_identifier) of
                     Some d \<Rightarrow> d
                   | None \<Rightarrow> \<lparr>images = [], metadata_json = None\<rparr>)
          in case save_each w e user_id model_identifier 0 imgs (images d) [] 0 of
               (Inl x, stored) \<Rightarrow>
                 (Inl x, s1\<lparr>files := AList.update (user_id, model_identifier)
                                         (d\<lparr>images := stored\<rparr>) (files s1)\<rparr>)
             | (Inr (saved_images, total_size), stored) \<Rightarrow>
                 (case io_fault e WriteMetadata of
                    Some x \<Rightarrow>
                      (Inl (Raised x),
                       s1\<lparr>files := AList.update (user_id, model_identifier)
                                       (d\<lparr>images := stored\<rparr>) (files s1),
                          ticks := Suc (ticks s1)\<rparr>)
                  | None \<Rightarrow>
                      (Inr [(''training_dir'',
                               JStr (path_text e
                                 [users_dir w, user_id, ''training_images'', model_identifier])),
                            (''images_dir'',
                               JStr (path_text e
                                 [users_dir w, user_id, ''training_images'', model_identifier,
                                  ''images''])),
                            (''num_images'', JInt (int (length saved_images))),
                            (''total_size_bytes'', JInt (int total_size)),
                            (''metadata_path'',
                               JStr (path_text e
                                 [users_dir w, user_id, ''training_images'', model_identifier,
                                  ''metadata.json'']))],
                       s1\<lparr>files := AList.update (user_id, model_identifier)
                              \<lparr>images = stored,
                               metadata_json = Some
                                 \<lparr>toplevel =
                                    [(''user_id'', JStr user_id),
                                     (''model_identifier'', JStr model_identifier),
                                     (''created_at'', JStr (now w (ticks s1))),
                                     (''num_images'', JInt (int (length saved_images))),
                                     (''total_size_bytes'', JInt (int total_size)),
                                     (''images'', JArr saved_images)],
                                  custom_metadata =
                                    Some (case metadata of Some m \<Rightarrow> m | None \<Rightarrow> [])\<rparr>\<rparr>
                              (files s1),
                          ticks := Suc (ticks s1)\<rparr>))))"

subsection \<open>The route \<^verbatim>\<open>POST /train\<close>\<close>

text \<open>
  An uploaded file; its content type is absent when the part of the form has none.
  The errors of the route: an \<^verbatim>\<open>HTTPException\<close> with status code 400 for each check that
  fails, and \<open>Internal\<close>, the status code 500 the route answers with when anything else
  raises, with the description of the exception.
\<close>

record upload =
  filename :: string
  content_type :: "string option"
  contents :: string

datatype http_error =
    TooFewImages nat
  | TooManyImages nat
  | IdentifierTooShort
  | ImageTooLarge string nat
  | TotalTooLarge nat
  | StorageLimitExceeded string
  | Internal string

text \<open>\<^verbatim>\<open>TrainResponse\<close>; \<^verbatim>\<open>images_saved\<close> is the value found in the dict of the storage service.\<close>

record train_response =
  success :: bool
  response_message :: string
  response_model_identifier :: string
  response_training_id :: string
  images_saved :: json
  estimated_time_minutes :: int

definition max_image_size :: nat where
  "max_image_size = 10 * 1024 * 1024"

definition max_total_size :: nat where
  "max_total_size = 100 * 1024 * 1024"

text \<open>
  The loop of \<^verbatim>\<open>train_model\<close> over the uploads, with the index of the next one: a file
  whose content type does not start with \<^verbatim>\<open>image/\<close> is skipped; one larger than 10 MB
  stops the request. \<^verbatim>\<open>startswith\<close> on an absent content type raises an
  \<^verbatim>\<open>AttributeError\<close>.
\<close>

fun read_uploads ::
  "storage_env \<Rightarrow> nat \<Rightarrow> upload list \<Rightarrow> (string \<times> string) list \<Rightarrow> nat
     \<Rightarrow> http_error + (string \<times> string) list \<times> nat" where
  "read_uploads e i [] images_data total_size = Inr (images_data, total_size)"
| "read_uploads e i (up # rest) images_data total_size =
     (case content_type up of
        None \<Rightarrow>
          Inl (Internal ([CHR 0x27] @ ''NoneType'' @ [CHR 0x27] @ '' object has no attribute ''
                          @ [CHR 0x27] @ ''startswith'' @ [CHR 0x27]))
      | Some ct \<Rightarrow>
          if take 6 ct \<noteq> ''image/''
          then read_uploads e (Suc i) rest images_data total_size
          else (case io_fault e (ReadUpload i) of
                  Some x \<Rightarrow> Inl (Internal x)
                | None \<Rightarrow>
                    if length (contents up) > max_image_size
                    then Inl (ImageTooLarge (filename up) (length (contents up)))
                    else read_uploads e (Suc i) rest
                           (images_data @ [(filename up, contents up)])
                           (total_size + length (contents up))))"

text \<open>
  \<^verbatim>\<open>num_train_epochs * 0.5\<close> first converts the integer to a double: to the nearest
  number with 53 significant bits, a tie going to the even one, and with an
  \<^verbatim>\<open>OverflowError\<close> when that is \<open>2 ^ 1024\<close> or more. The double of an integer is an
  integer, so it is kept as one.
\<close>

fun bit_length :: "nat \<Rightarrow> nat" where
  "bit_length n = (if n = 0 then 0 else Suc (bit_length (n div 2)))"

declare bit_length.simps [simp del]

definition nearest_double :: "nat \<Rightarrow> nat" where
  "nearest_double n =
     (if bit_length n \<le> 53 then n
      else if 2 * (n mod 2 ^ (bit_length n - 53)) > 2 ^ (bit_length n - 53)
              \<or> (2 * (n mod 2 ^ (bit_length n - 53)) = 2 ^ (bit_length n - 53)
                  \<and> odd (n div 2 ^ (bit_length n - 53)))
           then (n div 2 ^ (bit_length n - 53) + 1) * 2 ^ (bit_length n - 53)
           else (n div 2 ^ (bit_length n - 53)) * 2 ^ (bit_length n - 53))"

definition float_of_int :: "int \<Rightarrow> exn + int" where
  "float_of_int n =
     (if nearest_double (nat \<bar>n\<bar>) \<ge> 2 ^ 1024
      then Inl (Raised ''int too large to convert to float'')
      else Inr (sgn n * int (nearest_double (nat \<bar>n\<bar>))))"

text \<open>The message of the response, with the model identifier between single quotes.\<close>

definition started_message :: "string \<Rightarrow> string \<Rightarrow> string" where
  "started_message model_identifier training_id =
     ''DreamBooth training started for model '' @ [CHR 0x27] @ model_identifier @ [CHR 0x27]
       @ ''. Use GET /train/'' @ training_id @ ''/status to track progress.''"

text \<open>
  \<^verbatim>\<open>train_model\<close>: the checks of the request, the check of the user's storage, the call
  of \<^verbatim>\<open>save_training_images\<close> with the metadata of the new job, the time estimate and the
  response. \<open>uuid_hex\<close> is \<^verbatim>\<open>uuid.uuid4().hex\<close>. An \<^verbatim>\<open>HTTPException\<close> raised by a check
  goes through; any other exception becomes the status code 500, with what was written
  until then left in place. Halving a double that is a nonzero integer is exact, and
  \<^verbatim>\<open>int\<close> drops the fraction. The route also queues \<^verbatim>\<open>start_training\<close> as a background
  task, which runs after the response is sent and is not part of this function.

  Nothing on the way looks at whether a record is already stored for the user and the
  model identifier; what is stored counts only through its size.
\<close>

definition train_model ::
  "train_env \<Rightarrow> storage_env \<Rightarrow> string \<Rightarrow> string \<Rightarrow> string \<Rightarrow> int \<Rightarrow> rat \<Rightarrow> int \<Rightarrow> upload list
     \<Rightarrow> training_service \<Rightarrow> (http_error + train_response) \<times> training_service" where
  "train_model w e uuid_hex model_identifier user_id num_train_epochs learning_rate
       train_batch_size uploads s =
     (if length uploads < 10 then (Inl (TooFewImages (length uploads)), s)
      else if length uploads > 20 then (Inl (TooManyImages (length uploads)), s)
      else if length model_identifier < 3 then (Inl IdentifierTooShort, s)
      else
        (case read_uploads e 0 uploads [] 0 of
           Inl err \<Rightarrow> (Inl err, s)
         | Inr (images_data, total_size) \<Rightarrow>
             if total_size > max_total_size then (Inl (TotalTooLarge total_size), s)
             else
               (case validate_storage_limits e s user_id total_size of
                  Inl x \<Rightarrow> (Inl (Internal (str_of x)), s)
                | Inr False \<Rightarrow> (Inl (StorageLimitExceeded user_id), s)
                | Inr True \<Rightarrow>
                    (case save_training_images w e user_id model_identifier images_data
                            (Some [(''training_id'', JStr (''train_'' @ take 8 uuid_hex)),
                                   (''num_train_epochs'', JInt num_train_epochs),
                                   (''learning_rate'', JFloat learning_rate),
                                   (''train_batch_size'', JInt train_batch_size),
                                   (''status'', JStr ''pending'')])
                            s of
                       (Inl x, s1) \<Rightarrow> (Inl (Internal (str_of x)), s1)
                     | (Inr storage_result, s1) \<Rightarrow>
                         (case float_of_int num_train_epochs of
                            Inl x \<Rightarrow> (Inl (Internal (str_of x)), s1)
                          | Inr as_float \<Rightarrow>
                              (Inr \<lparr>success = True,
                                    response_message = started_message model_identifier
                                                (''train_'' @ take 8 uuid_hex),
                                    response_model_identifier = model_identifier,
                                    response_training_id = ''train_'' @ take 8 uuid_hex,
                                    images_saved = dict_get storage_result ''num_images'',
                                    estimated_time_minutes = trunc (of_int as_float * (1 / 2))\<rparr>,
                               s1))))))"

section \<open>Environments and states used as concrete inputs\<close>

definition loader_none :: loader where
  "loader_none k m = Raises ''not found''"

definition loader_fallback_only :: loader where
  "loader_fallback_only k m =
     (if m = FALLBACK_MODEL_ID then Loaded else Raises ''not found'')"

definition empty_service :: model_service where
  "empty_service = \<lparr>model_cache = [], loads = []\<rparr>"

text \<open>An environment in which every load succeeds, and two users with a model each.\<close>

definition loader_all :: loader where
  "loader_all k m = Loaded"

definition two_users :: "(string \<times> string) list" where
  "two_users = [(''alice'', ''models/alice''), (''bob'', ''models/bob'')]"

text \<open>A run of the pipeline that returns a picture named after the prompt.\<close>

definition run_ok :: "pipe \<Rightarrow> string \<Rightarrow> exn + string" where
  "run_ok p prompt = Inr (''image of '' @ prompt)"

text \<open>
  A training environment in which no external code fails, with ten batches an epoch and
  exact arithmetic; and the store with one training request, for the user \<^verbatim>\<open>user_123\<close>
  and the model \<^verbatim>\<open>aurel_person\<close>, in the state \<^verbatim>\<open>pending\<close>, with no image file.
\<close>

definition test_env :: train_env where
  "test_env =
     \<lparr>users_dir = ''/data/users'', now = (\<lambda>k. ''T'' @ show_nat k), fault = (\<lambda>st. None),
      len_dataloader = 10, loss_text = (\<lambda>g. ''0.1000''), rnd = (\<lambda>x. x)\<rparr>"

definition pending_service :: training_service where
  "pending_service =
     \<lparr>files = [((''user_123'', ''aurel_person''),
          \<lparr>images = [],
           metadata_json = Some
             \<lparr>toplevel = [(''user_id'', JStr ''user_123''),
                          (''model_identifier'', JStr ''aurel_person'')],
              custom_metadata = Some [(''training_id'', JStr ''train_ab12cd34''),
                                      (''status'', JStr ''pending'')]\<rparr>\<rparr>)],
      active_jobs = [], ticks = 0, logged = []\<rparr>"

text \<open>The same job after it was reported running, then completed or failed.\<close>

definition running_service :: training_service where
  "running_service =
     update_training_status test_env ''user_123'' ''aurel_person'' ''train_ab12cd34''
       ''running'' 5 ''Initializing...'' None pending_service"

definition completed_service :: training_service where
  "completed_service =
     update_training_status test_env ''user_123'' ''aurel_person'' ''train_ab12cd34''
       ''completed'' 100 ''Training completed!'' None running_service"

definition failed_service :: training_service where
  "failed_service =
     update_training_status test_env ''user_123'' ''aurel_person'' ''train_ab12cd34''
       ''failed'' 0 ''Training failed'' (Some ''out of memory'') running_service"

text \<open>
  A training request with ten uploads of one byte each; a file system on which nothing
  fails, where each \<^verbatim>\<open>metadata.json\<close> takes 300 bytes; the same with a
  \<^verbatim>\<open>metadata.json\<close> of 5 GB; and the same where the file of the first image cannot be
  opened.
\<close>

definition photo :: upload where
  "photo = \<lparr>filename = ''photo.png'', content_type = Some ''image/png'', contents = ''x''\<rparr>"

definition ten_uploads :: "upload list" where
  "ten_uploads = [photo, photo, photo, photo, photo, photo, photo, photo, photo, photo]"

definition ten_images :: "(string \<times> string) list" where
  "ten_images = map (\<lambda>up. (filename up, contents up)) ten_uploads"

fun slash_join :: "string list \<Rightarrow> string" where
  "slash_join [] = []"
| "slash_join [part] = part"
| "slash_join (part # rest) = part @ ''/'' @ slash_join rest"

definition test_storage :: storage_env where
  "test_storage =
     \<lparr>io_fault = (\<lambda>st. None), path_suffix = (\<lambda>name. ''.png''), path_text = slash_join,
      metadata_size = (\<lambda>md. 300), other_size = (\<lambda>user. 0)\<rparr>"

definition heavy_storage :: storage_env where
  "heavy_storage = test_storage\<lparr>metadata_size := (\<lambda>md. 5 * 1024 * 1024 * 1024)\<rparr>"

definition broken_storage :: storage_env where
  "broken_storage =
     test_storage\<lparr>io_fault := (\<lambda>st. if st = WriteImage 0
                                      then Some ''[Errno 2] No such file or directory''
                                      else None)\<rparr>"

definition empty_store :: training_service where
  "empty_store = \<lparr>files = [], active_jobs = [], ticks = 0, logged = []\<rparr>"

text \<open>
  The same pending request with ten image files in its \<^verbatim>\<open>images/\<close>, and the state in which
  the \<^verbatim>\<open>try\<close> of \<^verbatim>\<open>start_training\<close> leaves the request without images: reported
  running with progress 5.
\<close>

definition ready_service :: training_service where
  "ready_service =
     \<lparr>files = [((''user_123'', ''aurel_person''),
          \<lparr>images = [(''aurel_person_000.png'', ''x''), (''aurel_person_001.png'', ''x''),
                     (''aurel_person_002.png'', ''x''), (''aurel_person_003.png'', ''x''),
                     (''aurel_person_004.png'', ''x''), (''aurel_person_005.png'', ''x''),
                     (''aurel_person_006.png'', ''x''), (''aurel_person_007.png'', ''x''),
                     (''aurel_person_008.png'', ''x''), (''aurel_person_009.png'', ''x'')],
           metadata_json = Some
             \<lparr>toplevel = [(''user_id'', JStr ''user_123''),
                          (''model_identifier'', JStr ''aurel_person'')],
              custom_metadata = Some [(''training_id'', JStr ''train_ab12cd34''),
                                      (''status'', JStr ''pending'')]\<rparr>\<rparr>)],
      active_jobs = [], ticks = 0, logged = []\<rparr>"

definition started_service :: training_service where
  "started_service =
     update_training_status test_env ''user_123'' ''aurel_person'' ''train_ab12cd34''
       ''running'' 5 ''Initializing training environment...'' None pending_service"

section \<open>What an update stores\<close>

text \<open>
  The \<^verbatim>\<open>custom_metadata\<close> that \<^verbatim>\<open>update_training_status\<close> writes and the number of
  clock readings after it, as functions of the \<^verbatim>\<open>custom_metadata\<close> it read and of the
  number of readings before: the same steps as in the function, taken out of it so that
  the lemmas below can name them.
\<close>

definition stored_custom ::
  "train_env \<Rightarrow> string \<Rightarrow> int \<Rightarrow> string \<Rightarrow> string option \<Rightarrow> nat \<Rightarrow> dict \<Rightarrow> dict" where
  "stored_custom w status progress message error t cm0 =
     (let cm1 = AList.update ''status'' (JStr status) cm0;
          cm2 = AList.update ''progress'' (JInt progress) cm1;
          cm3 = AList.update ''message'' (JStr message) cm2;
          cm4 = AList.update ''last_updated'' (JStr (now w t)) cm3;
          t1 = Suc t;
          starts = (status = ''running'' \<and> map_of cm4 ''started_at'' = None);
          cm5 = (if starts then AList.update ''started_at'' (JStr (now w t1)) cm4 else cm4);
          t2 = (if starts then Suc t1 else t1);
          ends = (status = ''completed'' \<or> status = ''failed'');
          cm6 = (if ends then AList.update ''completed_at'' (JStr (now w t2)) cm5 else cm5)
      in case error of
           None \<Rightarrow> cm6
         | Some e \<Rightarrow> if e \<noteq> [] then AList.update ''error'' (JStr e) cm6 else cm6)"

definition stored_ticks :: "string \<Rightarrow> nat \<Rightarrow> dict \<Rightarrow> nat" where
  "stored_ticks status t cm0 =
     (let t1 = Suc t;
          starts = (status = ''running'' \<and> map_of cm0 ''started_at'' = None);
          t2 = (if starts then Suc t1 else t1);
          ends = (status = ''completed'' \<or> status = ''failed'')
      in if ends then Suc t2 else t2)"

section \<open>The progress a training run reports\<close>

text \<open>
  The progress values of the updates with status \<^verbatim>\<open>running\<close>, and of those with status
  \<^verbatim>\<open>completed\<close>, that a log records, oldest first.
\<close>

fun running_progress :: "log_entry list \<Rightarrow> int list" where
  "running_progress [] = []"
| "running_progress (MetadataNotFound tid # rest) = running_progress rest"
| "running_progress (StatusLogged tid status progress message # rest) =
     (if status = ''running'' then progress # running_progress rest else running_progress rest)"

fun completed_progress :: "log_entry list \<Rightarrow> int list" where
  "completed_progress [] = []"
| "completed_progress (MetadataNotFound tid # rest) = completed_progress rest"
| "completed_progress (StatusLogged tid status progress message # rest) =
     (if status = ''completed'' then progress # completed_progress rest
      else completed_progress rest)"

text \<open>
  What is used of the floating point arithmetic: rounding is monotone, and it returns
  0, 1 and 50 as they are. IEEE 754 rounding to nearest, which Python's floats use, does
  both, since these three numbers are representable.
\<close>

definition faithful_rounding :: "train_env \<Rightarrow> bool" where
  "faithful_rounding w \<longleftrightarrow>
     (\<forall>x y. x \<le> y \<longrightarrow> rnd w x \<le> rnd w y) \<and> rnd w 0 = 0 \<and> rnd w 1 = 1 \<and> rnd w 50 = 50"

text \<open>
  \<open>run_segment lo hi s s'\<close>: the state \<open>s'\<close> comes from \<open>s\<close> by status updates whose
  log lines extend the log of \<open>s\<close>; the progress values reported with status
  \<^verbatim>\<open>running\<close> in these lines do not decrease and lie between \<open>lo\<close> and \<open>hi\<close>, and
  each line with status \<^verbatim>\<open>completed\<close> carries progress 100.
\<close>

definition run_segment :: "int \<Rightarrow> int \<Rightarrow> training_service \<Rightarrow> training_service \<Rightarrow> bool" where
  "run_segment lo hi s s' \<longleftrightarrow>
     lo \<le> hi \<and>
     (\<exists>new. logged s' = logged s @ new
        \<and> sorted (running_progress new)
        \<and> (\<forall>p \<in> set (running_progress new). lo \<le> p \<and> p \<le> hi)
        \<and> (\<forall>p \<in> set (completed_progress new). p = 100))"

section \<open>Properties of the model cache\<close>

text \<open>
  C6, as stated, at the fallback identifier itself: it is not the default identifier, its
  load fails, and \<^verbatim>\<open>load_model\<close> makes that one attempt only and retries nothing.
\<close>

theorem load_model_fallback_itself_counterexample:
  "FALLBACK_MODEL_ID \<noteq> DEFAULT_MODEL_ID ''/app'' \<and>
   loader_none (length (loads empty_service)) FALLBACK_MODEL_ID = Raises ''not found'' \<and>
   loads (snd (load_model loader_none FALLBACK_MODEL_ID empty_service)) = [FALLBACK_MODEL_ID]"
  by (simp add: load_model.simps FALLBACK_MODEL_ID_def DEFAULT_MODEL_ID_def loader_none_def
      empty_service_def)

text \<open>
  C6, amended: for every model identifier other than the fallback identifier (the default
  identifier included) whose load fails, \<^verbatim>\<open>load_model\<close> makes exactly one more attempt,
  on the fallback identifier. When that attempt succeeds its pipeline is returned; when
  it fails the call fails with a load error that names the fallback, and nothing more is
  tried.
\<close>

theorem load_model_retries_once:
  assumes "model_id \<noteq> FALLBACK_MODEL_ID"
    and "env (length (loads s)) model_id = Raises e"
  shows "loads (snd (load_model env model_id s)) = loads s @ [model_id, FALLBACK_MODEL_ID] \<and>
         fst (load_model env model_id s) =
           (case env (Suc (length (loads s))) FALLBACK_MODEL_ID of
              Loaded \<Rightarrow> Inr \<lparr>pipe_id = Suc (length (loads s)), pretrained = FALLBACK_MODEL_ID\<rparr>
            | Raises e' \<Rightarrow>
                Inl (Exception (''Failed to load model '' @ FALLBACK_MODEL_ID @ '': '' @ e')))"
  using assms by (simp add: load_model.simps split: outcome.splits)

theorem load_model_retries_once_witness:
  "''nonexistent/model'' \<noteq> FALLBACK_MODEL_ID \<and>
   loader_none (length (loads empty_service)) ''nonexistent/model'' = Raises ''not found'' \<and>
   loads (snd (load_model loader_none ''nonexistent/model'' empty_service))
     = [''nonexistent/model'', FALLBACK_MODEL_ID] \<and>
   fst (load_model loader_none ''nonexistent/model'' empty_service)
     = Inl (Exception (''Failed to load model '' @ FALLBACK_MODEL_ID @ '': not found''))"
proof -
  have a: "''nonexistent/model'' \<noteq> FALLBACK_MODEL_ID"
    by (simp add: FALLBACK_MODEL_ID_def)
  have b: "loader_none (length (loads empty_service)) ''nonexistent/model'' = Raises ''not found''"
    by (simp add: loader_none_def)
  show ?thesis
    using a b
      load_model_retries_once [of "''nonexistent/model''" loader_none empty_service "''not found''"]
    by (simp add: loader_none_def empty_service_def)
qed

text \<open>
  C3, evaluated where the code departs from it: the user \<^verbatim>\<open>default\<close> resolves to the
  default identifier, whose load fails; the fallback loads. The pipeline returned was
  loaded from the fallback identifier, and the identifier returned with it, also by
  \<^verbatim>\<open>generate_image\<close> next to the image, is the requested one, which is not the fallback.
\<close>

theorem get_or_load_model_reports_requested_id:
  "get_or_load_model loader_fallback_only (USER_MODELS ''/app'') (DEFAULT_MODEL_ID ''/app'')
       ''default'' empty_service
     = (Inr (\<lparr>pipe_id = 1, pretrained = FALLBACK_MODEL_ID\<rparr>, ''/app/Aurel_diffusers''),
        \<lparr>model_cache = [(''/app/Aurel_diffusers'', \<lparr>pipe_id = 1, pretrained = FALLBACK_MODEL_ID\<rparr>)],
         loads = [''/app/Aurel_diffusers'', FALLBACK_MODEL_ID]\<rparr>)
   \<and> fst (generate_image loader_fallback_only run_ok (USER_MODELS ''/app'')
            (DEFAULT_MODEL_ID ''/app'') ''default'' ''a portrait'' empty_service)
     = Inr (''image of a portrait'', ''/app/Aurel_diffusers'')
   \<and> ''/app/Aurel_diffusers'' \<noteq> FALLBACK_MODEL_ID"
  by (simp add: generate_image_def run_ok_def get_or_load_model_def Let_def get_model_id_def
      USER_MODELS_def DEFAULT_MODEL_ID_def load_model.simps loader_fallback_only_def
      empty_service_def FALLBACK_MODEL_ID_def)

text \<open>
  The calls other than \<^verbatim>\<open>clear_cache\<close> never remove or replace an entry of the cache.
\<close>

lemma model_cache_load_model:
  "model_cache (snd (load_model env model_id s)) = model_cache s"
proof (induction env model_id s rule: load_model.induct)
  case (1 env model_id s)
  show ?case
    by (subst load_model.simps) (use 1 in \<open>auto split: outcome.splits\<close>)
qed

lemma get_or_load_model_keeps:
  assumes "map_of (model_cache s) k = Some p"
  shows "map_of (model_cache (snd (get_or_load_model env user_models dflt user_id s))) k = Some p"
proof (cases "map_of (model_cache s) (get_model_id user_models dflt user_id)")
  case (Some q)
  then show ?thesis
    using assms by (simp add: get_or_load_model_def Let_def)
next
  case None
  then have ne: "get_model_id user_models dflt user_id \<noteq> k"
    using assms by auto
  obtain r s1 where l: "load_model env (get_model_id user_models dflt user_id) s = (r, s1)"
    by (cases "load_model env (get_model_id user_models dflt user_id) s")
  have c: "model_cache s1 = model_cache s"
    using model_cache_load_model [of env "get_model_id user_models dflt user_id" s] l by simp
  show ?thesis
    using assms None ne l c
    by (cases r) (simp_all add: get_or_load_model_def Let_def update_conv')
qed

lemma snd_generate_image:
  "snd (generate_image env run user_models dflt user_id prompt s) =
     snd (get_or_load_model env user_models dflt user_id s)"
  by (simp add: generate_image_def split: prod.splits sum.splits)

lemma perform_keeps:
  assumes "map_of (model_cache s) k = Some p"
  shows "map_of (model_cache (perform env run user_models dflt c s)) k = Some p"
  using assms
  by (cases c) (simp_all add: get_or_load_model_keeps snd_generate_image model_cache_load_model)

lemma perform_all_keeps:
  assumes "map_of (model_cache s) k = Some p"
  shows "map_of (model_cache (perform_all env run user_models dflt cs s)) k = Some p"
  using assms
  by (induction cs arbitrary: s) (simp_all add: perform_keeps)

text \<open>
  C8: when a call of \<^verbatim>\<open>get_or_load_model\<close> has returned a pipeline for a model
  identifier, then after any calls of the service other than \<^verbatim>\<open>clear_cache\<close> (for
  other users and models too, succeeding or not), a further call for a user of the same
  model identifier returns the same pipeline object and the same identifier and leaves
  the state as it is: the cache is unchanged and no load is attempted.
\<close>

theorem get_or_load_model_cache_hit:
  assumes "get_or_load_model env user_models dflt user_id s = (Inr (p, m), s1)"
    and "get_model_id user_models dflt user_id' = get_model_id user_models dflt user_id"
  shows "get_or_load_model env user_models dflt user_id'
           (perform_all env run user_models dflt calls s1)
         = (Inr (p, m), perform_all env run user_models dflt calls s1)"
proof -
  have hit: "map_of (model_cache s1) m = Some p \<and> m = get_model_id user_models dflt user_id"
    using assms(1)
    by (auto simp add: get_or_load_model_def Let_def update_conv'
        split: option.splits sum.splits prod.splits)
  then have "map_of (model_cache s1) m = Some p"
    by (rule conjunct1)
  then have "map_of (model_cache (perform_all env run user_models dflt calls s1)) m = Some p"
    by (rule perform_all_keeps)
  then show ?thesis
    using hit assms(2) by (auto simp: get_or_load_model_def Let_def)
qed

theorem get_or_load_model_cache_hit_witness:
  "get_or_load_model loader_all two_users ''models/default'' ''alice''
       (perform_all loader_all run_ok two_users ''models/default''
          [GetOrLoad ''bob'', LoadedCount, GenerateImage ''bob'' ''a portrait'',
           LoadModel ''models/carol'']
          \<lparr>model_cache = [(''models/alice'', \<lparr>pipe_id = 0, pretrained = ''models/alice''\<rparr>)],
           loads = [''models/alice'']\<rparr>)
     = (Inr (\<lparr>pipe_id = 0, pretrained = ''models/alice''\<rparr>, ''models/alice''),
        \<lparr>model_cache = [(''models/alice'', \<lparr>pipe_id = 0, pretrained = ''models/alice''\<rparr>),
                        (''models/bob'', \<lparr>pipe_id = 1, pretrained = ''models/bob''\<rparr>)],
         loads = [''models/alice'', ''models/bob'', ''models/carol'']\<rparr>)"
proof -
  have first: "get_or_load_model loader_all two_users ''models/default'' ''alice'' empty_service
     = (Inr (\<lparr>pipe_id = 0, pretrained = ''models/alice''\<rparr>, ''models/alice''),
        \<lparr>model_cache = [(''models/alice'', \<lparr>pipe_id = 0, pretrained = ''models/alice''\<rparr>)],
         loads = [''models/alice'']\<rparr>)"
    by (simp add: get_or_load_model_def Let_def get_model_id_def two_users_def
        load_model.simps loader_all_def empty_service_def)
  have between: "perform_all loader_all run_ok two_users ''models/default''
          [GetOrLoad ''bob'', LoadedCount, GenerateImage ''bob'' ''a portrait'',
           LoadModel ''models/carol'']
          \<lparr>model_cache = [(''models/alice'', \<lparr>pipe_id = 0, pretrained = ''models/alice''\<rparr>)],
           loads = [''models/alice'']\<rparr>
     = \<lparr>model_cache = [(''models/alice'', \<lparr>pipe_id = 0, pretrained = ''models/alice''\<rparr>),
                       (''models/bob'', \<lparr>pipe_id = 1, pretrained = ''models/bob''\<rparr>)],
        loads = [''models/alice'', ''models/bob'', ''models/carol'']\<rparr>"
    by (simp add: generate_image_def run_ok_def get_or_load_model_def Let_def get_model_id_def
        two_users_def load_model.simps loader_all_def)
  show ?thesis
    using get_or_load_model_cache_hit [OF first refl, of run_ok
        "[GetOrLoad ''bob'', LoadedCount, GenerateImage ''bob'' ''a portrait'',
          LoadModel ''models/carol'']"]
    by (simp only: between)
qed

section \<open>Properties of the job metadata store\<close>

lemma custom_or_empty_Some [simp]:
  "custom_or_empty (md\<lparr>custom_metadata := Some cm\<rparr>) = cm"
  by (simp add: custom_or_empty_def)

lemma metadata_at_SomeD:
  "metadata_at s u m = Some md
     \<Longrightarrow> \<exists>d. map_of (files s) (u, m) = Some d \<and> metadata_json d = Some md"
  by (simp add: metadata_at_def split: option.splits)

text \<open>The state after an update of a record that exists.\<close>

lemma update_training_status_existing:
  assumes "map_of (files s) (u, m) = Some d" and "metadata_json d = Some md"
  shows "update_training_status w u m tid status progress message error s =
     s\<lparr>files := AList.update (u, m)
                  (d\<lparr>metadata_json := Some (md\<lparr>custom_metadata :=
                       Some (stored_custom w status progress message error (ticks s)
                               (custom_or_empty md))\<rparr>)\<rparr>)
                  (files s),
       active_jobs := AList.update tid
                  [(''training_id'', JStr tid),
                   (''status'', JStr status),
                   (''progress'', JInt progress),
                   (''message'', JStr message),
                   (''model_identifier'', JStr m),
                   (''user_id'', JStr u)]
                  (active_jobs s),
       ticks := stored_ticks status (ticks s) (custom_or_empty md),
       logged := logged s @ [StatusLogged tid status progress message]\<rparr>"
  unfolding update_training_status_def stored_custom_def stored_ticks_def Let_def
  by (simp add: assms update_conv')

lemma update_training_status_missing:
  assumes "metadata_at s u m = None"
  shows "update_training_status w u m tid status progress message error s =
           s\<lparr>logged := logged s @ [MetadataNotFound tid]\<rparr>"
  using assms
  by (simp add: update_training_status_def metadata_at_def split: option.splits)

lemma metadata_at_update:
  assumes "metadata_at s u m = Some md"
  shows "metadata_at (update_training_status w u m tid status progress message error s) u m =
           Some (md\<lparr>custom_metadata :=
                   Some (stored_custom w status progress message error (ticks s)
                           (custom_or_empty md))\<rparr>)"
proof -
  obtain d where d: "map_of (files s) (u, m) = Some d" "metadata_json d = Some md"
    using metadata_at_SomeD [OF assms] by blast
  show ?thesis
    by (simp add: update_training_status_existing [OF d] metadata_at_def update_conv')
qed

lemma custom_at_update:
  assumes "metadata_at s u m = Some md"
  shows "custom_at (update_training_status w u m tid status progress message error s) u m =
           stored_custom w status progress message error (ticks s) (custom_or_empty md)"
  by (simp add: custom_at_def metadata_at_update [OF assms])

lemma active_jobs_update:
  assumes "metadata_at s u m = Some md"
  shows "map_of (active_jobs (update_training_status w u m tid status progress message error s)) tid =
           Some [(''training_id'', JStr tid),
                 (''status'', JStr status),
                 (''progress'', JInt progress),
                 (''message'', JStr message),
                 (''model_identifier'', JStr m),
                 (''user_id'', JStr u)]"
proof -
  obtain d where d: "map_of (files s) (u, m) = Some d" "metadata_json d = Some md"
    using metadata_at_SomeD [OF assms] by blast
  show ?thesis
    by (simp add: update_training_status_existing [OF d] update_conv')
qed

lemma stored_status:
  "map_of (stored_custom w status progress message error t cm0) ''status'' = Some (JStr status)"
  by (simp add: stored_custom_def Let_def update_conv' split: option.splits)

lemma stored_progress:
  "map_of (stored_custom w status progress message error t cm0) ''progress'' = Some (JInt progress)"
  by (simp add: stored_custom_def Let_def update_conv' split: option.splits)

lemma stored_message:
  "map_of (stored_custom w status progress message error t cm0) ''message'' = Some (JStr message)"
  by (simp add: stored_custom_def Let_def update_conv' split: option.splits)

lemma stored_started_at:
  "map_of (stored_custom w status progress message error t cm0) ''started_at'' =
     (case map_of cm0 ''started_at'' of
        Some v \<Rightarrow> Some v
      | None \<Rightarrow> if status = ''running'' then Some (JStr (now w (Suc t))) else None)"
  by (simp add: stored_custom_def Let_def update_conv' split: option.splits)

lemma stored_completed_at_failed:
  "map_of (stored_custom w ''failed'' progress message error t cm0) ''completed_at'' =
     Some (JStr (now w (Suc t)))"
  by (simp add: stored_custom_def Let_def update_conv' split: option.splits)

lemma stored_error_cases:
  "map_of (stored_custom w status progress message error t cm0) ''error'' =
     (case error of
        None \<Rightarrow> map_of cm0 ''error''
      | Some e \<Rightarrow> if e \<noteq> [] then Some (JStr e) else map_of cm0 ''error'')"
  by (simp add: stored_custom_def Let_def update_conv' split: option.splits)

lemma stored_other:
  "k \<notin> {''status'', ''progress'', ''message'', ''last_updated'', ''started_at'',
          ''completed_at'', ''error''}
   \<Longrightarrow> map_of (stored_custom w status progress message error t cm0) k = map_of cm0 k"
  by (simp add: stored_custom_def Let_def update_conv' split: option.splits)

text \<open>The states used as inputs, evaluated.\<close>

lemmas store_defs = update_training_status_def metadata_at_def custom_at_def custom_or_empty_def
  Let_def dict_get_def dict_get_default_def

lemma running_service_value:
  "running_service =
     \<lparr>files = [((''user_123'', ''aurel_person''),
          \<lparr>images = [],
           metadata_json = Some
             \<lparr>toplevel = [(''user_id'', JStr ''user_123''),
                          (''model_identifier'', JStr ''aurel_person'')],
              custom_metadata = Some [(''training_id'', JStr ''train_ab12cd34''),
                                      (''status'', JStr ''running''),
                                      (''progress'', JInt 5),
                                      (''message'', JStr ''Initializing...''),
                                      (''last_updated'', JStr (now test_env 0)),
                                      (''started_at'', JStr (now test_env 1))]\<rparr>\<rparr>)],
      active_jobs = [(''train_ab12cd34'',
                      [(''training_id'', JStr ''train_ab12cd34''),
                       (''status'', JStr ''running''),
                       (''progress'', JInt 5),
                       (''message'', JStr ''Initializing...''),
                       (''model_identifier'', JStr ''aurel_person''),
                       (''user_id'', JStr ''user_123'')])],
      ticks = 2,
      logged = [StatusLogged ''train_ab12cd34'' ''running'' 5 ''Initializing...'']\<rparr>"
  by (simp add: running_service_def pending_service_def store_defs)

lemma completed_service_value:
  "completed_service =
     \<lparr>files = [((''user_123'', ''aurel_person''),
          \<lparr>images = [],
           metadata_json = Some
             \<lparr>toplevel = [(''user_id'', JStr ''user_123''),
                          (''model_identifier'', JStr ''aurel_person'')],
              custom_metadata = Some [(''training_id'', JStr ''train_ab12cd34''),
                                      (''status'', JStr ''completed''),
                                      (''progress'', JInt 100),
                                      (''message'', JStr ''Training completed!''),
                                      (''last_updated'', JStr (now test_env 2)),
                                      (''started_at'', JStr (now test_env 1)),
                                      (''completed_at'', JStr (now test_env 3))]\<rparr>\<rparr>)],
      active_jobs = [(''train_ab12cd34'',
                      [(''training_id'', JStr ''train_ab12cd34''),
                       (''status'', JStr ''completed''),
                       (''progress'', JInt 100),
                       (''message'', JStr ''Training completed!''),
                       (''model_identifier'', JStr ''aurel_person''),
                       (''user_id'', JStr ''user_123'')])],
      ticks = 4,
      logged = [StatusLogged ''train_ab12cd34'' ''running'' 5 ''Initializing...'',
                StatusLogged ''train_ab12cd34'' ''completed'' 100 ''Training completed!'']\<rparr>"
  by (simp add: completed_service_def running_service_value store_defs)

lemma failed_service_value:
  "failed_service =
     \<lparr>files = [((''user_123'', ''aurel_person''),
          \<lparr>images = [],
           metadata_json = Some
             \<lparr>toplevel = [(''user_id'', JStr ''user_123''),
                          (''model_identifier'', JStr ''aurel_person'')],
              custom_metadata = Some [(''training_id'', JStr ''train_ab12cd34''),
                                      (''status'', JStr ''failed''),
                                      (''progress'', JInt 0),
                                      (''message'', JStr ''Training failed''),
                                      (''last_updated'', JStr (now test_env 2)),
                                      (''started_at'', JStr (now test_env 1)),
                                      (''completed_at'', JStr (now test_env 3)),
                                      (''error'', JStr ''out of memory'')]\<rparr>\<rparr>)],
      active_jobs = [(''train_ab12cd34'',
                      [(''training_id'', JStr ''train_ab12cd34''),
                       (''status'', JStr ''failed''),
                       (''progress'', JInt 0),
                       (''message'', JStr ''Training failed''),
                       (''model_identifier'', JStr ''aurel_person''),
                       (''user_id'', JStr ''user_123'')])],
      ticks = 4,
      logged = [StatusLogged ''train_ab12cd34'' ''running'' 5 ''Initializing...'',
                StatusLogged ''train_ab12cd34'' ''failed'' 0 ''Training failed'']\<rparr>"
  by (simp add: failed_service_def running_service_value store_defs)

lemma metadata_at_completed_service:
  "metadata_at completed_service ''user_123'' ''aurel_person'' =
     Some \<lparr>toplevel = [(''user_id'', JStr ''user_123''),
                       (''model_identifier'', JStr ''aurel_person'')],
           custom_metadata = Some [(''training_id'', JStr ''train_ab12cd34''),
                                   (''status'', JStr ''completed''),
                                   (''progress'', JInt 100),
                                   (''message'', JStr ''Training completed!''),
                                   (''last_updated'', JStr (now test_env 2)),
                                   (''started_at'', JStr (now test_env 1)),
                                   (''completed_at'', JStr (now test_env 3))]\<rparr>"
  by (simp add: completed_service_value metadata_at_def)

text \<open>
  C1, as stated, on the job of the scenario of the specification: it is completed with
  progress 100, and a further update with status \<^verbatim>\<open>failed\<close> is not rejected. The stored
  record then says \<^verbatim>\<open>failed\<close> with progress 0, and both the stored files and the
  in-memory index have changed.
\<close>

theorem update_after_completed_counterexample:
  "dict_get (custom_at completed_service ''user_123'' ''aurel_person'') ''status'' = JStr ''completed''
   \<and> dict_get (custom_at completed_service ''user_123'' ''aurel_person'') ''progress'' = JInt 100
   \<and> dict_get (custom_at
         (update_training_status test_env ''user_123'' ''aurel_person'' ''train_ab12cd34''
            ''failed'' 0 ''late report'' None completed_service)
         ''user_123'' ''aurel_person'') ''status'' = JStr ''failed''
   \<and> dict_get (custom_at
         (update_training_status test_env ''user_123'' ''aurel_person'' ''train_ab12cd34''
            ''failed'' 0 ''late report'' None completed_service)
         ''user_123'' ''aurel_person'') ''progress'' = JInt 0
   \<and> files (update_training_status test_env ''user_123'' ''aurel_person'' ''train_ab12cd34''
            ''failed'' 0 ''late report'' None completed_service) \<noteq> files completed_service
   \<and> active_jobs (update_training_status test_env ''user_123'' ''aurel_person'' ''train_ab12cd34''
            ''failed'' 0 ''late report'' None completed_service) \<noteq> active_jobs completed_service"
  by (simp add: completed_service_value store_defs)

text \<open>
  C1, amended: for every training job whose metadata file exists, whatever its status
  (terminal or not), a call of \<^verbatim>\<open>update_training_status\<close> is carried out: the status, the
  progress and the message of the call are stored in the durable record and in the entry
  of the in-memory index. What the call leaves as it was is the metadata outside
  \<^verbatim>\<open>custom_metadata\<close> and every key of \<^verbatim>\<open>custom_metadata\<close> other than \<^verbatim>\<open>status\<close>,
  \<^verbatim>\<open>progress\<close>, \<^verbatim>\<open>message\<close>, \<^verbatim>\<open>last_updated\<close>, \<^verbatim>\<open>started_at\<close>, \<^verbatim>\<open>completed_at\<close> and
  \<^verbatim>\<open>error\<close>.
\<close>

theorem update_training_status_overwrites:
  assumes "metadata_at s user_id model_identifier = Some md"
  shows "(let s' = update_training_status w user_id model_identifier training_id status progress
                     message error s;
              cm' = custom_at s' user_id model_identifier
          in map_of cm' ''status'' = Some (JStr status)
           \<and> map_of cm' ''progress'' = Some (JInt progress)
           \<and> map_of cm' ''message'' = Some (JStr message)
           \<and> map_of (active_jobs s') training_id =
                Some [(''training_id'', JStr training_id),
                      (''status'', JStr status),
                      (''progress'', JInt progress),
                      (''message'', JStr message),
                      (''model_identifier'', JStr model_identifier),
                      (''user_id'', JStr user_id)]
           \<and> map_option toplevel (metadata_at s' user_id model_identifier) = Some (toplevel md)
           \<and> (\<forall>k. k \<notin> {''status'', ''progress'', ''message'', ''last_updated'', ''started_at'',
                        ''completed_at'', ''error''}
                  \<longrightarrow> map_of cm' k = map_of (custom_or_empty md) k))"
  unfolding Let_def
  by (simp only: custom_at_update [OF assms] metadata_at_update [OF assms]
        active_jobs_update [OF assms] stored_status stored_progress stored_message)
     (simp add: stored_other)

theorem update_training_status_overwrites_witness:
  "map_of (custom_at
       (update_training_status test_env ''user_123'' ''aurel_person'' ''train_ab12cd34''
          ''failed'' 0 ''late report'' None completed_service)
       ''user_123'' ''aurel_person'') ''status'' = Some (JStr ''failed'')
   \<and> map_of (custom_at
       (update_training_status test_env ''user_123'' ''aurel_person'' ''train_ab12cd34''
          ''failed'' 0 ''late report'' None completed_service)
       ''user_123'' ''aurel_person'') ''progress'' = Some (JInt 0)
   \<and> map_of (custom_at
       (update_training_status test_env ''user_123'' ''aurel_person'' ''train_ab12cd34''
          ''failed'' 0 ''late report'' None completed_service)
       ''user_123'' ''aurel_person'') ''training_id'' = Some (JStr ''train_ab12cd34'')"
  using update_training_status_overwrites [OF metadata_at_completed_service,
      of test_env "''train_ab12cd34''" "''failed''" 0 "''late report''" None]
  by (simp add: Let_def custom_or_empty_def)

text \<open>
  C4, evaluated where the code departs from it: the job has failed and its stored record
  holds the description of the error. What \<^verbatim>\<open>get_training_status\<close> returns has no key
  \<^verbatim>\<open>error\<close>, neither when the in-memory index answers nor, with the index empty as after
  a restart, when the scan of the stored records answers; the status route then reads
  \<^verbatim>\<open>None\<close> for the error.
\<close>

theorem get_training_status_omits_error:
  "dict_get (custom_at failed_service ''user_123'' ''aurel_person'') ''status'' = JStr ''failed''
   \<and> dict_get (custom_at failed_service ''user_123'' ''aurel_person'') ''error'' = JStr ''out of memory''
   \<and> get_training_status ''train_ab12cd34'' failed_service =
        Some [(''training_id'', JStr ''train_ab12cd34''),
              (''status'', JStr ''failed''),
              (''progress'', JInt 0),
              (''message'', JStr ''Training failed''),
              (''model_identifier'', JStr ''aurel_person''),
              (''user_id'', JStr ''user_123'')]
   \<and> map_option status_response_error (get_training_status ''train_ab12cd34'' failed_service)
        = Some JNull
   \<and> get_training_status ''train_ab12cd34'' (failed_service\<lparr>active_jobs := []\<rparr>) =
        Some [(''training_id'', JStr ''train_ab12cd34''),
              (''status'', JStr ''failed''),
              (''model_identifier'', JStr ''aurel_person''),
              (''user_id'', JStr ''user_123''),
              (''progress'', JInt 0),
              (''message'', JStr ''Training failed''),
              (''started_at'', JStr (now test_env 1)),
              (''completed_at'', JStr (now test_env 3))]
   \<and> map_option status_response_error
        (get_training_status ''train_ab12cd34'' (failed_service\<lparr>active_jobs := []\<rparr>)) = Some JNull"
  by (simp add: failed_service_value get_training_status_def status_response_error_def store_defs)

text \<open>
  C9: an update of a record that exists leaves a \<^verbatim>\<open>started_at\<close> that is already there
  as it is, whatever the status of the update; when there is none, an update with status
  \<^verbatim>\<open>running\<close> sets it to the reading of the clock that follows the one taken for
  \<^verbatim>\<open>last_updated\<close>, and an update with another status sets none.
\<close>

theorem started_at_recorded_once:
  assumes "metadata_at s user_id model_identifier = Some md"
  shows "map_of (custom_at (update_training_status w user_id model_identifier training_id
                   status progress message error s) user_id model_identifier) ''started_at''
         = (case map_of (custom_or_empty md) ''started_at'' of
              Some v \<Rightarrow> Some v
            | None \<Rightarrow> if status = ''running'' then Some (JStr (now w (Suc (ticks s)))) else None)"
  by (simp only: custom_at_update [OF assms] stored_started_at)

theorem started_at_recorded_once_witness:
  "map_of (custom_at running_service ''user_123'' ''aurel_person'') ''started_at''
     = Some (JStr (now test_env 1))
   \<and> map_of (custom_at
        (update_training_status test_env ''user_123'' ''aurel_person'' ''train_ab12cd34''
           ''running'' 10 ''Preparing...'' None running_service)
        ''user_123'' ''aurel_person'') ''started_at'' = Some (JStr (now test_env 1))"
proof -
  have a: "metadata_at running_service ''user_123'' ''aurel_person'' =
     Some \<lparr>toplevel = [(''user_id'', JStr ''user_123''),
                       (''model_identifier'', JStr ''aurel_person'')],
           custom_metadata = Some [(''training_id'', JStr ''train_ab12cd34''),
                                   (''status'', JStr ''running''),
                                   (''progress'', JInt 5),
                                   (''message'', JStr ''Initializing...''),
                                   (''last_updated'', JStr (now test_env 0)),
                                   (''started_at'', JStr (now test_env 1))]\<rparr>"
    by (simp add: running_service_value metadata_at_def)
  have b: "map_of (custom_at running_service ''user_123'' ''aurel_person'') ''started_at''
     = Some (JStr (now test_env 1))"
    by (simp add: running_service_value custom_at_def metadata_at_def custom_or_empty_def)
  show ?thesis
    using b started_at_recorded_once [OF a, of test_env "''train_ab12cd34''" "''running''" 10
        "''Preparing...''" None]
    by (simp add: custom_or_empty_def)
qed

text \<open>
  C10: when there is no metadata file at the place the user and model identifiers name,
  \<^verbatim>\<open>update_training_status\<close> returns with the stored files, the in-memory index and the
  clock as they were; all it does is log that the metadata was not found.
\<close>

theorem update_without_metadata_is_noop:
  assumes "metadata_at s user_id model_identifier = None"
  shows "files (update_training_status w user_id model_identifier training_id status progress
                  message error s) = files s
       \<and> active_jobs (update_training_status w user_id model_identifier training_id status progress
                  message error s) = active_jobs s
       \<and> ticks (update_training_status w user_id model_identifier training_id status progress
                  message error s) = ticks s
       \<and> logged (update_training_status w user_id model_identifier training_id status progress
                  message error s) = logged s @ [MetadataNotFound training_id]"
  by (simp add: update_training_status_missing [OF assms])

theorem update_without_metadata_is_noop_witness:
  "metadata_at pending_service ''user_123'' ''other_model'' = None
   \<and> files (update_training_status test_env ''user_123'' ''other_model'' ''train_00000000''
         ''running'' 5 ''Initializing...'' None pending_service) = files pending_service
   \<and> active_jobs (update_training_status test_env ''user_123'' ''other_model'' ''train_00000000''
         ''running'' 5 ''Initializing...'' None pending_service) = []
   \<and> logged (update_training_status test_env ''user_123'' ''other_model'' ''train_00000000''
         ''running'' 5 ''Initializing...'' None pending_service) = [MetadataNotFound ''train_00000000'']"
proof -
  have a: "metadata_at pending_service ''user_123'' ''other_model'' = None"
    by (simp add: pending_service_def metadata_at_def)
  show ?thesis
    using a update_without_metadata_is_noop [OF a, of test_env "''train_00000000''" "''running''" 5
        "''Initializing...''" None]
    by (simp add: pending_service_def)
qed

section \<open>Properties of storing a training request\<close>

text \<open>
  When no file operation fails, \<^verbatim>\<open>save_training_images\<close> returns, reports every image it
  was given, and leaves the metadata it was given as the custom metadata of the training
  directory, whatever the directory held.
\<close>

lemma save_each_ok:
  assumes "\<forall>i<length imgs. io_fault e (WriteImage (idx + i)) = None"
  shows "\<exists>saved' tot' stored'.
           save_each w e u m idx imgs stored saved tot = (Inr (saved', tot'), stored')
           \<and> length saved' = length saved + length imgs"
  using assms
proof (induction imgs arbitrary: idx stored saved tot)
  case Nil
  then show ?case by simp
next
  case (Cons img imgs)
  obtain filename content where img: "img = (filename, content)"
    by (cases img)
  have here: "io_fault e (WriteImage idx) = None"
    using Cons.prems by force
  have rest: "\<forall>i<length imgs. io_fault e (WriteImage (Suc idx + i)) = None"
    using Cons.prems by force
  show ?case
    using Cons.IH [OF rest] here by (simp add: img) fastforce
qed

lemma save_training_images_ok:
  assumes "io_fault e TrainingDirectory = None"
    and "\<forall>i<length imgs. io_fault e (WriteImage i) = None"
    and "io_fault e WriteMetadata = None"
  shows "\<exists>res s'. save_training_images w e u m imgs md s = (Inr res, s')
           \<and> dict_get res ''num_images'' = JInt (int (length imgs))
           \<and> custom_at s' u m = (case md of Some x \<Rightarrow> x | None \<Rightarrow> [])"
proof -
  have "\<exists>s1. get_model_training_directory e u m s = Inr s1"
    using assms(1) by (simp add: get_model_training_directory_def split: option.splits)
  then obtain s1 where s1: "get_model_training_directory e u m s = Inr s1"
    by blast
  define d where "d = (case map_of (files s1) (u, m) of
                         Some d \<Rightarrow> d | None \<Rightarrow> \<lparr>images = [], metadata_json = None\<rparr>)"
  have "\<forall>i<length imgs. io_fault e (WriteImage (0 + i)) = None"
    using assms(2) by simp
  then obtain saved' tot' stored' where
      se: "save_each w e u m 0 imgs (images d) [] 0 = (Inr (saved', tot'), stored')"
      and len: "length saved' = length imgs"
    using save_each_ok [of imgs e 0 w u m "images d" "[]" 0] by auto
  show ?thesis
    using s1 se len assms(3)
    by (simp add: save_training_images_def Let_def d_def [symmetric] dict_get_def custom_at_def
        metadata_at_def update_conv' custom_or_empty_def)
qed

lemma custom_at_save_training_images:
  assumes "save_training_images w e u m imgs md s = (Inr res, s')"
  shows "custom_at s' u m = (case md of Some x \<Rightarrow> x | None \<Rightarrow> [])"
  using assms
  by (auto simp: save_training_images_def Let_def custom_at_def metadata_at_def update_conv'
      custom_or_empty_def split: sum.splits prod.splits option.splits)

text \<open>
  The conversion to a double: an integer below \<open>2 ^ 53\<close> in absolute value is its own
  double, and one of \<open>2 ^ 1024\<close> or more has none.
\<close>

lemma bit_length_le: "n < 2 ^ k \<Longrightarrow> bit_length n \<le> k"
proof (induction n arbitrary: k rule: bit_length.induct)
  case (1 n)
  show ?case
  proof (cases "n = 0")
    case True
    then show ?thesis by (simp add: bit_length.simps)
  next
    case False
    then obtain k' where k: "k = Suc k'"
      using "1.prems" by (cases k) auto
    have "n div 2 < 2 ^ k'"
      using "1.prems" k by auto
    then have "bit_length (n div 2) \<le> k'"
      using "1.IH" [OF False] by blast
    then show ?thesis
      using False k by (subst bit_length.simps) simp
  qed
qed

lemma bit_length_bounds: "n \<noteq> 0 \<Longrightarrow> 2 ^ (bit_length n - 1) \<le> n \<and> n < 2 ^ bit_length n"
proof (induction n rule: bit_length.induct)
  case (1 n)
  show ?case
  proof (cases "n div 2 = 0")
    case True
    then have "n = 1"
      using "1.prems" by (simp add: div_eq_0_iff) 
    then show ?thesis
      by (simp add: bit_length.simps)
  next
    case False
    have ih: "2 ^ (bit_length (n div 2) - 1) \<le> n div 2 \<and> n div 2 < 2 ^ bit_length (n div 2)"
      using "1.IH" [OF "1.prems" False] .
    have pos: "0 < bit_length (n div 2)"
      using False by (subst bit_length.simps) simp
    have eq: "bit_length n = Suc (bit_length (n div 2))"
      using "1.prems" by (subst bit_length.simps) simp
    have "2 * 2 ^ (bit_length (n div 2) - 1) \<le> n"
      using ih by linarith
    moreover have "2 * 2 ^ (bit_length (n div 2) - 1) = (2::nat) ^ bit_length (n div 2)"
      using pos by (cases "bit_length (n div 2)") simp_all
    moreover have "n < 2 * 2 ^ bit_length (n div 2)"
      using ih by linarith
    ultimately show ?thesis
      by (simp add: eq)
  qed
qed

lemma float_of_int_exact:
  assumes "\<bar>n\<bar> < 2 ^ 53"
  shows "float_of_int n = Inr n"
proof -
  have small: "nat \<bar>n\<bar> < 2 ^ 53"
    using assms by (simp add: nat_less_iff)
  then have "bit_length (nat \<bar>n\<bar>) \<le> 53"
    by (rule bit_length_le)
  then have nd: "nearest_double (nat \<bar>n\<bar>) = nat \<bar>n\<bar>"
    by (simp add: nearest_double_def)
  have "nat \<bar>n\<bar> < 2 ^ 1024"
    using small by (rule less_trans) simp
  then show ?thesis
    by (simp add: float_of_int_def nd not_le [symmetric] mult_sgn_abs)
qed

lemma nearest_double_large:
  assumes "2 ^ 1024 \<le> m"
  shows "2 ^ 1024 \<le> nearest_double m"
proof -
  define b where "b = bit_length m"
  have m0: "m \<noteq> 0"
    using assms by auto
  have bounds: "2 ^ (b - 1) \<le> m" "m < 2 ^ b"
    using bit_length_bounds [OF m0] by (simp_all add: b_def)
  have "(2::nat) ^ 1024 < 2 ^ b"
    using assms bounds(2) by linarith
  then have big: "1024 < b"
    by (simp only: power_strict_increasing_iff [of 2]) 
  define sh where "sh = b - 53"
  have b1: "b - 1 = 52 + sh"
    using big by (simp add: sh_def)
  have "2 ^ 52 * 2 ^ sh \<le> m"
    using bounds(1) unfolding b1 power_add .
  then have q: "2 ^ 52 \<le> m div 2 ^ sh"
    by (simp add: less_eq_div_iff_mult_less_eq)
  have "1024 \<le> 52 + sh"
    using big by (simp add: sh_def)
  then have "(2::nat) ^ 1024 \<le> 2 ^ (52 + sh)"
    by (rule power_increasing) simp
  then have low: "(2::nat) ^ 1024 \<le> 2 ^ 52 * 2 ^ sh"
    by (simp only: power_add)
  have a: "2 ^ 1024 \<le> (m div 2 ^ sh) * 2 ^ sh"
    using low q by (meson le_trans mult_le_mono1)
  have c: "2 ^ 1024 \<le> (m div 2 ^ sh + 1) * 2 ^ sh"
    using a by (simp add: add_mult_distrib trans_le_add1)
  have nb: "\<not> b \<le> 53"
    using big by simp
  show ?thesis
    using a c nb by (simp add: nearest_double_def b_def [symmetric] sh_def [symmetric])
qed

lemma float_of_int_overflow:
  assumes "2 ^ 1024 \<le> \<bar>n\<bar>"
  shows "float_of_int n = Inl (Raised ''int too large to convert to float'')"
proof -
  have "2 ^ 1024 \<le> nat \<bar>n\<bar>"
    using assms by (simp add: le_nat_iff)
  then have "2 ^ 1024 \<le> nearest_double (nat \<bar>n\<bar>)"
    by (rule nearest_double_large)
  then show ?thesis
    unfolding float_of_int_def by (simp only: if_True)
qed

text \<open>
  Every request the route accepts leaves the metadata of the new job as the stored record.
\<close>

lemma train_model_custom:
  assumes "fst (train_model w e uuid_hex m u E lr b uploads s) = Inr r"
  shows "custom_at (snd (train_model w e uuid_hex m u E lr b uploads s)) u m =
           [(''training_id'', JStr (''train_'' @ take 8 uuid_hex)),
            (''num_train_epochs'', JInt E),
            (''learning_rate'', JFloat lr),
            (''train_batch_size'', JInt b),
            (''status'', JStr ''pending'')]"
proof -
  let ?md = "[(''training_id'', JStr (''train_'' @ take 8 uuid_hex)),
            (''num_train_epochs'', JInt E),
            (''learning_rate'', JFloat lr),
            (''train_batch_size'', JInt b),
            (''status'', JStr ''pending'')]"
  obtain imgs where saved: "\<exists>res. save_training_images w e u m imgs (Some ?md) s
      = (Inr res, snd (train_model w e uuid_hex m u E lr b uploads s))"
    using assms
    by (auto simp: train_model_def split: if_splits sum.splits prod.splits bool.splits)
  then show ?thesis
    using custom_at_save_training_images [of w e u m imgs "Some ?md" s] by auto
qed

lemma train_model_accepts:
  assumes "10 \<le> length uploads" and "length uploads \<le> 20"
    and "3 \<le> length model_identifier"
    and "read_uploads e 0 uploads [] 0 = Inr (images_data, total_size)"
    and "total_size \<le> max_total_size"
    and "validate_storage_limits e s user_id total_size = Inr True"
    and "io_fault e TrainingDirectory = None"
    and "\<forall>i<length images_data. io_fault e (WriteImage i) = None"
    and "io_fault e WriteMetadata = None"
    and "float_of_int num_train_epochs = Inr as_float"
  shows "fst (train_model w e uuid_hex model_identifier user_id num_train_epochs learning_rate
                train_batch_size uploads s)
           = Inr \<lparr>success = True,
                  response_message = started_message model_identifier
                                       (''train_'' @ take 8 uuid_hex),
                  response_model_identifier = model_identifier,
                  response_training_id = ''train_'' @ take 8 uuid_hex,
                  images_saved = JInt (int (length images_data)),
                  estimated_time_minutes = trunc (of_int as_float * (1 / 2))\<rparr>
       \<and> custom_at (snd (train_model w e uuid_hex model_identifier user_id num_train_epochs
                learning_rate train_batch_size uploads s)) user_id model_identifier
           = [(''training_id'', JStr (''train_'' @ take 8 uuid_hex)),
              (''num_train_epochs'', JInt num_train_epochs),
              (''learning_rate'', JFloat learning_rate),
              (''train_batch_size'', JInt train_batch_size),
              (''status'', JStr ''pending'')]"
proof -
  let ?md = "[(''training_id'', JStr (''train_'' @ take 8 uuid_hex)),
              (''num_train_epochs'', JInt num_train_epochs),
              (''learning_rate'', JFloat learning_rate),
              (''train_batch_size'', JInt train_batch_size),
              (''status'', JStr ''pending'')]"
  obtain res s' where saved:
      "save_training_images w e user_id model_identifier images_data (Some ?md) s = (Inr res, s')"
      "dict_get res ''num_images'' = JInt (int (length images_data))"
      "custom_at s' user_id model_identifier = ?md"
    using save_training_images_ok [OF assms(7) assms(8) assms(9), of w user_id model_identifier
        "Some ?md" s]
    by auto
  show ?thesis
    using assms(1-6) assms(10) saved
    by (simp add: train_model_def)
qed

text \<open>The scenario: the uploads, the sizes on disk and the time estimate.\<close>

lemma float_of_int_100: "float_of_int 100 = Inr 100"
  by (rule float_of_int_exact) simp

lemma read_ten_uploads: "read_uploads test_storage 0 ten_uploads [] 0 = Inr (ten_images, 10)"
  by (simp add: ten_uploads_def ten_images_def photo_def max_image_size_def test_storage_def)

lemma read_ten_uploads_heavy: "read_uploads heavy_storage 0 ten_uploads [] 0 = Inr (ten_images, 10)"
  by (simp add: ten_uploads_def ten_images_def photo_def max_image_size_def test_storage_def
      heavy_storage_def)

lemma read_ten_uploads_broken: "read_uploads broken_storage 0 ten_uploads [] 0 = Inr (ten_images, 10)"
  by (simp add: ten_uploads_def ten_images_def photo_def max_image_size_def test_storage_def
      broken_storage_def)

lemma length_ten: "length ten_uploads = 10" "length ten_images = 10"
  by (simp_all add: ten_uploads_def ten_images_def)

lemma size_completed_service:
  "get_user_storage_size test_storage completed_service ''user_123'' = Inr 300"
  by (simp add: get_user_storage_size_def dir_size_def test_storage_def completed_service_value
      clearjunk.simps)

lemma size_failed_service:
  "get_user_storage_size test_storage failed_service ''user_123'' = Inr 300"
  by (simp add: get_user_storage_size_def dir_size_def test_storage_def failed_service_value
      clearjunk.simps)

lemma test_storage_no_fault: "io_fault test_storage st = None"
  by (simp add: test_storage_def)

text \<open>
  C5, as stated, on the completed job of the scenario: a durable record exists for
  \<^verbatim>\<open>user_123\<close> and \<^verbatim>\<open>aurel_person\<close>, with the training id \<^verbatim>\<open>train_ab12cd34\<close> and the
  status \<^verbatim>\<open>completed\<close>. A training request for the same user and model does not fail: it
  is answered with the response of a new job, and the record stored there afterwards is
  the one of the new job. The old one is overwritten.
\<close>

theorem train_model_existing_record_counterexample:
  "dict_get (custom_at completed_service ''user_123'' ''aurel_person'') ''training_id''
     = JStr ''train_ab12cd34''
   \<and> dict_get (custom_at completed_service ''user_123'' ''aurel_person'') ''status''
     = JStr ''completed''
   \<and> fst (train_model test_env test_storage ''deadbeefcafe0123'' ''aurel_person'' ''user_123'' 100
             (1 / 200000) 1 ten_uploads completed_service)
     = Inr \<lparr>success = True,
              response_message = started_message ''aurel_person'' ''train_deadbeef'',
              response_model_identifier = ''aurel_person'',
              response_training_id = ''train_deadbeef'',
              images_saved = JInt 10,
              estimated_time_minutes = 50\<rparr>
   \<and> custom_at (snd (train_model test_env test_storage ''deadbeefcafe0123'' ''aurel_person''
             ''user_123'' 100 (1 / 200000) 1 ten_uploads completed_service))
         ''user_123'' ''aurel_person''
     = [(''training_id'', JStr ''train_deadbeef''),
        (''num_train_epochs'', JInt 100),
        (''learning_rate'', JFloat (1 / 200000)),
        (''train_batch_size'', JInt 1),
        (''status'', JStr ''pending'')]"
proof -
  have v: "validate_storage_limits test_storage completed_service ''user_123'' 10 = Inr True"
    by (simp add: validate_storage_limits_def size_completed_service max_user_storage_def)
  have before: "dict_get (custom_at completed_service ''user_123'' ''aurel_person'') ''training_id''
       = JStr ''train_ab12cd34''
     \<and> dict_get (custom_at completed_service ''user_123'' ''aurel_person'') ''status''
       = JStr ''completed''"
    by (simp add: completed_service_value custom_at_def metadata_at_def custom_or_empty_def
        dict_get_def)
  show ?thesis
    using before
      train_model_accepts [where uploads = ten_uploads and model_identifier = "''aurel_person''"
        and e = test_storage and images_data = ten_images and total_size = 10 and s = completed_service
        and user_id = "''user_123''" and w = test_env and uuid_hex = "''deadbeefcafe0123''"
        and num_train_epochs = 100 and as_float = 100 and learning_rate = "1 / 200000"
        and train_batch_size = 1]
    by (simp add: length_ten read_ten_uploads v test_storage_no_fault max_total_size_def
        float_of_int_100 trunc_def)
qed

text \<open>
  A number of epochs too large for a double: the route answers with the status code 500
  after the record of the new job has been written.
\<close>

lemma train_model_epochs_overflow:
  assumes "10 \<le> length uploads" and "length uploads \<le> 20"
    and "3 \<le> length model_identifier"
    and "read_uploads e 0 uploads [] 0 = Inr (images_data, total_size)"
    and "total_size \<le> max_total_size"
    and "validate_storage_limits e s user_id total_size = Inr True"
    and "io_fault e TrainingDirectory = None"
    and "\<forall>i<length images_data. io_fault e (WriteImage i) = None"
    and "io_fault e WriteMetadata = None"
    and "2 ^ 1024 \<le> \<bar>num_train_epochs\<bar>"
  shows "fst (train_model w e uuid_hex model_identifier user_id num_train_epochs learning_rate
                train_batch_size uploads s)
           = Inl (Internal ''int too large to convert to float'')
       \<and> custom_at (snd (train_model w e uuid_hex model_identifier user_id num_train_epochs
                learning_rate train_batch_size uploads s)) user_id model_identifier
           = [(''training_id'', JStr (''train_'' @ take 8 uuid_hex)),
              (''num_train_epochs'', JInt num_train_epochs),
              (''learning_rate'', JFloat learning_rate),
              (''train_batch_size'', JInt train_batch_size),
              (''status'', JStr ''pending'')]"
proof -
  let ?md = "[(''training_id'', JStr (''train_'' @ take 8 uuid_hex)),
              (''num_train_epochs'', JInt num_train_epochs),
              (''learning_rate'', JFloat learning_rate),
              (''train_batch_size'', JInt train_batch_size),
              (''status'', JStr ''pending'')]"
  obtain res s' where saved:
      "save_training_images w e user_id model_identifier images_data (Some ?md) s = (Inr res, s')"
      "custom_at s' user_id model_identifier = ?md"
    using save_training_images_ok [OF assms(7) assms(8) assms(9), of w user_id model_identifier
        "Some ?md" s]
    by auto
  have over: "float_of_int num_train_epochs = Inl (Raised ''int too large to convert to float'')"
    using assms(10) by (rule float_of_int_overflow)
  show ?thesis
    using assms(1-6) saved over
    by (simp add: train_model_def)
qed

text \<open>
  What is stored counts through its size: with a \<^verbatim>\<open>metadata.json\<close> of 5 GB on disk the
  same request, accepted on the empty store, is refused for the storage limit.
\<close>

lemma train_model_storage_limit:
  "fst (train_model test_env heavy_storage ''deadbeefcafe0123'' ''aurel_person'' ''user_123'' 100
          (1 / 200000) 1 ten_uploads empty_store) = Inr \<lparr>success = True,
              response_message = started_message ''aurel_person'' ''train_deadbeef'',
              response_model_identifier = ''aurel_person'',
              response_training_id = ''train_deadbeef'',
              images_saved = JInt 10,
              estimated_time_minutes = 50\<rparr>
   \<and> train_model test_env heavy_storage ''deadbeefcafe0123'' ''aurel_person'' ''user_123'' 100
          (1 / 200000) 1 ten_uploads completed_service
       = (Inl (StorageLimitExceeded ''user_123''), completed_service)"
proof -
  have v0: "validate_storage_limits heavy_storage empty_store ''user_123'' 10 = Inr True"
    by (simp add: validate_storage_limits_def get_user_storage_size_def heavy_storage_def
        test_storage_def empty_store_def max_user_storage_def)
  have v1: "validate_storage_limits heavy_storage completed_service ''user_123'' 10 = Inr False"
    by (simp add: validate_storage_limits_def get_user_storage_size_def dir_size_def
        heavy_storage_def test_storage_def completed_service_value clearjunk.simps
        max_user_storage_def)
  have nf: "io_fault heavy_storage st = None" for st
    by (simp add: heavy_storage_def test_storage_def)
  have a: "fst (train_model test_env heavy_storage ''deadbeefcafe0123'' ''aurel_person''
      ''user_123'' 100 (1 / 200000) 1 ten_uploads empty_store) = Inr \<lparr>success = True,
              response_message = started_message ''aurel_person'' ''train_deadbeef'',
              response_model_identifier = ''aurel_person'',
              response_training_id = ''train_deadbeef'',
              images_saved = JInt 10,
              estimated_time_minutes = 50\<rparr>"
    using train_model_accepts [where uploads = ten_uploads and model_identifier = "''aurel_person''"
        and e = heavy_storage and images_data = ten_images and total_size = 10 and s = empty_store
        and user_id = "''user_123''" and w = test_env and uuid_hex = "''deadbeefcafe0123''"
        and num_train_epochs = 100 and as_float = 100 and learning_rate = "1 / 200000"
        and train_batch_size = 1]
    by (simp add: length_ten read_ten_uploads_heavy v0 nf max_total_size_def float_of_int_100
        trunc_def)
  have b: "train_model test_env heavy_storage ''deadbeefcafe0123'' ''aurel_person'' ''user_123''
      100 (1 / 200000) 1 ten_uploads completed_service
       = (Inl (StorageLimitExceeded ''user_123''), completed_service)"
    by (simp add: train_model_def length_ten read_ten_uploads_heavy v1 max_total_size_def)
  show ?thesis
    using a b by simp
qed

text \<open>
  A file that cannot be opened: for the model identifier \<^verbatim>\<open>aurel/person\<close> the name of the
  first image lies in a directory that does not exist, the route answers with the status
  code 500, and no \<^verbatim>\<open>metadata.json\<close> is written.
\<close>

lemma train_model_write_failure:
  "fst (train_model test_env broken_storage ''deadbeefcafe0123'' ''aurel/person'' ''user_123'' 100
          (1 / 200000) 1 ten_uploads empty_store)
     = Inl (Internal ''[Errno 2] No such file or directory'')
   \<and> metadata_at (snd (train_model test_env broken_storage ''deadbeefcafe0123'' ''aurel/person''
          ''user_123'' 100 (1 / 200000) 1 ten_uploads empty_store)) ''user_123'' ''aurel/person''
     = None"
proof -
  have v0: "validate_storage_limits broken_storage empty_store ''user_123'' 10 = Inr True"
    by (simp add: validate_storage_limits_def get_user_storage_size_def broken_storage_def
        test_storage_def empty_store_def max_user_storage_def)
  have w0: "io_fault broken_storage (WriteImage 0) = Some ''[Errno 2] No such file or directory''"
      "io_fault broken_storage TrainingDirectory = None"
    by (simp_all add: broken_storage_def test_storage_def)
  have s: "save_training_images test_env broken_storage ''user_123'' ''aurel/person'' ten_images md
      empty_store
     = (Inl (Raised ''[Errno 2] No such file or directory''),
        empty_store\<lparr>files := [((''user_123'', ''aurel/person''),
                                 \<lparr>images = [], metadata_json = None\<rparr>)]\<rparr>)" for md
    by (simp add: save_training_images_def get_model_training_directory_def w0 empty_store_def
        ten_images_def ten_uploads_def photo_def Let_def)
  show ?thesis
    by (simp add: train_model_def length_ten read_ten_uploads_broken v0 s max_total_size_def
        metadata_at_def)
qed

text \<open>
  C5, amended: a create call is never refused because a durable job record already
  exists for its user and model identifier. When it sends 10 to 20 files and an
  identifier of at least 3 characters, the files are read within the size limits, the
  files the user already has on disk and the new ones stay within the user's storage
  limit, no file operation of the storage service fails and the number of epochs fits a
  double, then the call is answered with the response of the new job, and the record
  stored for the user and the model identifier afterwards is the fresh record of the new
  job, in the state \<^verbatim>\<open>pending\<close> and with the new training id, whatever was stored there
  before: an existing record is overwritten.
\<close>

theorem train_model_replaces_record:
  assumes "10 \<le> length uploads" and "length uploads \<le> 20"
    and "3 \<le> length model_identifier"
    and "read_uploads e 0 uploads [] 0 = Inr (images_data, total_size)"
    and "total_size \<le> max_total_size"
    and "get_user_storage_size e s user_id = Inr current_size"
    and "current_size + total_size \<le> max_user_storage"
    and "io_fault e TrainingDirectory = None"
    and "\<forall>i<length images_data. io_fault e (WriteImage i) = None"
    and "io_fault e WriteMetadata = None"
    and "float_of_int num_train_epochs = Inr as_float"
  shows "fst (train_model w e uuid_hex model_identifier user_id num_train_epochs learning_rate
                train_batch_size uploads s)
           = Inr \<lparr>success = True,
                  response_message = started_message model_identifier
                                       (''train_'' @ take 8 uuid_hex),
                  response_model_identifier = model_identifier,
                  response_training_id = ''train_'' @ take 8 uuid_hex,
                  images_saved = JInt (int (length images_data)),
                  estimated_time_minutes = trunc (of_int as_float * (1 / 2))\<rparr>
       \<and> custom_at (snd (train_model w e uuid_hex model_identifier user_id num_train_epochs
                learning_rate train_batch_size uploads s)) user_id model_identifier
           = [(''training_id'', JStr (''train_'' @ take 8 uuid_hex)),
              (''num_train_epochs'', JInt num_train_epochs),
              (''learning_rate'', JFloat learning_rate),
              (''train_batch_size'', JInt train_batch_size),
              (''status'', JStr ''pending'')]"
proof -
  have limits: "validate_storage_limits e s user_id total_size = Inr True"
    using assms(6) assms(7) by (simp add: validate_storage_limits_def)
  show ?thesis
    by (rule train_model_accepts [OF assms(1-5) limits assms(8-11)])
qed

theorem train_model_replaces_record_witness:
  "length ten_uploads = 10
   \<and> length ''aurel_person'' = 12
   \<and> read_uploads test_storage 0 ten_uploads [] 0 = Inr (ten_images, 10)
   \<and> get_user_storage_size test_storage failed_service ''user_123'' = Inr 300
   \<and> metadata_at failed_service ''user_123'' ''aurel_person'' \<noteq> None
   \<and> fst (train_model test_env test_storage ''deadbeefcafe0123'' ''aurel_person'' ''user_123'' 100
             (1 / 200000) 1 ten_uploads failed_service)
     = Inr \<lparr>success = True,
              response_message = started_message ''aurel_person'' ''train_deadbeef'',
              response_model_identifier = ''aurel_person'',
              response_training_id = ''train_deadbeef'',
              images_saved = JInt 10,
              estimated_time_minutes = 50\<rparr>
   \<and> custom_at (snd (train_model test_env test_storage ''deadbeefcafe0123'' ''aurel_person''
             ''user_123'' 100 (1 / 200000) 1 ten_uploads failed_service))
         ''user_123'' ''aurel_person''
     = [(''training_id'', JStr ''train_deadbeef''),
        (''num_train_epochs'', JInt 100),
        (''learning_rate'', JFloat (1 / 200000)),
        (''train_batch_size'', JInt 1),
        (''status'', JStr ''pending'')]"
proof -
  have n: "10 \<le> length ten_uploads" "length ten_uploads \<le> 20"
    by (simp_all add: length_ten)
  have m: "3 \<le> length ''aurel_person''" "length ''aurel_person'' = 12"
    by simp_all
  have t: "10 \<le> max_total_size"
    by (simp add: max_total_size_def)
  have l: "300 + 10 \<le> max_user_storage"
    by (simp add: max_user_storage_def)
  have f: "io_fault test_storage TrainingDirectory = None"
      "\<forall>i<length ten_images. io_fault test_storage (WriteImage i) = None"
      "io_fault test_storage WriteMetadata = None"
    by (simp_all add: test_storage_no_fault)
  have x: "metadata_at failed_service ''user_123'' ''aurel_person'' \<noteq> None"
    by (simp add: failed_service_value metadata_at_def)
  show ?thesis
    using length_ten(1) m(2) read_ten_uploads size_failed_service x
      train_model_replaces_record [OF n m(1) read_ten_uploads t size_failed_service l f
        float_of_int_100, of test_env "''deadbeefcafe0123''" "1 / 200000" 1]
    by (simp add: length_ten trunc_def)
qed

section \<open>Properties of the training run\<close>

lemma running_progress_append [simp]:
  "running_progress (xs @ ys) = running_progress xs @ running_progress ys"
  by (induction xs rule: running_progress.induct) auto

lemma completed_progress_append [simp]:
  "completed_progress (xs @ ys) = completed_progress xs @ completed_progress ys"
  by (induction xs rule: completed_progress.induct) auto

lemma run_segment_refl: "lo \<le> hi \<Longrightarrow> run_segment lo hi s s"
  by (simp add: run_segment_def)

lemma run_segment_trans:
  assumes "run_segment a b s s1" and "run_segment c d s1 s2" and "b \<le> c"
  shows "run_segment a d s s2"
proof -
  obtain n1 where n1: "logged s1 = logged s @ n1" "sorted (running_progress n1)"
      "\<forall>p \<in> set (running_progress n1). a \<le> p \<and> p \<le> b"
      "\<forall>p \<in> set (completed_progress n1). p = 100" and ab: "a \<le> b"
    using assms(1) by (auto simp: run_segment_def)
  obtain n2 where n2: "logged s2 = logged s1 @ n2" "sorted (running_progress n2)"
      "\<forall>p \<in> set (running_progress n2). c \<le> p \<and> p \<le> d"
      "\<forall>p \<in> set (completed_progress n2). p = 100" and cd: "c \<le> d"
    using assms(2) by (auto simp: run_segment_def)
  have 1: "logged s2 = logged s @ (n1 @ n2)"
    using n1(1) n2(1) by simp
  have 2: "sorted (running_progress (n1 @ n2))"
    using n1(2,3) n2(2,3) assms(3) by (fastforce simp: sorted_append)
  have 3: "\<forall>p \<in> set (running_progress (n1 @ n2)). a \<le> p \<and> p \<le> d"
    using n1(3) n2(3) assms(3) ab cd by fastforce
  have 4: "\<forall>p \<in> set (completed_progress (n1 @ n2)). p = 100"
    using n1(4) n2(4) by auto
  have "a \<le> d" using ab cd assms(3) by simp
  then show ?thesis
    unfolding run_segment_def using 1 2 3 4 by blast
qed

lemma run_segment_then:
  assumes "run_segment c d s1 s2" and "run_segment a b s s1" and "b \<le> c"
  shows "run_segment a d s s2"
  by (rule run_segment_trans [OF assms(2) assms(1) assms(3)])

lemma run_segment_weaken:
  assumes "run_segment a b s s'" and "a' \<le> a" and "b \<le> b'"
  shows "run_segment a' b' s s'"
  using assms unfolding run_segment_def by fastforce

lemma logged_update:
  "logged (update_training_status w u m tid status progress message error s) =
     logged s @ [case metadata_at s u m of
                   None \<Rightarrow> MetadataNotFound tid
                 | Some md \<Rightarrow> StatusLogged tid status progress message]"
proof (cases "metadata_at s u m")
  case None
  then show ?thesis by (simp add: update_training_status_missing)
next
  case (Some md)
  obtain d where d: "map_of (files s) (u, m) = Some d" "metadata_json d = Some md"
    using metadata_at_SomeD [OF Some] by blast
  show ?thesis
    by (simp add: update_training_status_existing [OF d] Some)
qed

lemma run_segment_running:
  assumes "lo \<le> p" and "p \<le> hi"
  shows "run_segment lo hi s (update_training_status w u m tid ''running'' p message error s)"
  unfolding run_segment_def using assms
  by (auto simp: logged_update split: option.splits)

lemma run_segment_completed:
  assumes "lo \<le> hi"
  shows "run_segment lo hi s (update_training_status w u m tid ''completed'' 100 message error s)"
  unfolding run_segment_def using assms
  by (auto simp: logged_update split: option.splits)

lemma run_segment_failed:
  assumes "lo \<le> hi"
  shows "run_segment lo hi s (update_training_status w u m tid ''failed'' p message error s)"
  unfolding run_segment_def using assms
  by (auto simp: logged_update split: option.splits)

lemma rnd_nonneg: "faithful_rounding w \<Longrightarrow> 0 \<le> x \<Longrightarrow> 0 \<le> rnd w x"
  unfolding faithful_rounding_def by metis

lemma rnd_mono: "faithful_rounding w \<Longrightarrow> x \<le> y \<Longrightarrow> rnd w x \<le> rnd w y"
  unfolding faithful_rounding_def by metis

lemma loop_progress_mono:
  assumes fr: "faithful_rounding w" and N: "0 < N" and le: "g \<le> g'"
  shows "loop_progress w g N \<le> loop_progress w g' N"
proof -
  have q: "(of_nat g :: rat) / of_int N \<le> of_nat g' / of_int N"
    using N le by (simp add: divide_right_mono)
  have q0: "(0::rat) \<le> of_nat g / of_int N"
    using N by simp
  have a: "rnd w (of_nat g / of_int N) * 50 \<le> rnd w (of_nat g' / of_int N) * 50"
    using rnd_mono [OF fr q] by simp
  have b: "0 \<le> rnd w (of_nat g / of_int N) * 50"
    using rnd_nonneg [OF fr q0] by simp
  have c: "0 \<le> rnd w (rnd w (of_nat g / of_int N) * 50)"
    by (rule rnd_nonneg [OF fr b])
  have d: "rnd w (rnd w (of_nat g / of_int N) * 50) \<le> rnd w (rnd w (of_nat g' / of_int N) * 50)"
    by (rule rnd_mono [OF fr a])
  show ?thesis
    using c d by (simp add: loop_progress_def trunc_def floor_mono)
qed

lemma loop_progress_lower:
  assumes fr: "faithful_rounding w" and N: "0 < N"
  shows "40 \<le> loop_progress w g N"
proof -
  have q0: "(0::rat) \<le> of_nat g / of_int N"
    using N by simp
  have b: "0 \<le> rnd w (of_nat g / of_int N) * 50"
    using rnd_nonneg [OF fr q0] by simp
  have c: "0 \<le> rnd w (rnd w (of_nat g / of_int N) * 50)"
    by (rule rnd_nonneg [OF fr b])
  show ?thesis
    using c by (simp add: loop_progress_def trunc_def)
qed

lemma loop_progress_upper:
  assumes fr: "faithful_rounding w" and N: "0 < N" and le: "int g \<le> N"
  shows "loop_progress w g N \<le> 90"
proof -
  have q0: "(0::rat) \<le> of_nat g / of_int N"
    using N by simp
  have "(of_int (int g) :: rat) \<le> of_int N"
    using le by (simp only: of_int_le_iff)
  then have gN: "(of_nat g :: rat) \<le> of_int N"
    by simp
  have q1: "(of_nat g :: rat) / of_int N \<le> 1"
    using N gN by simp
  have r1: "rnd w (of_nat g / of_int N) \<le> 1"
    using rnd_mono [OF fr q1] fr by (simp add: faithful_rounding_def)
  have b: "0 \<le> rnd w (of_nat g / of_int N) * 50"
    using rnd_nonneg [OF fr q0] by simp
  have b50: "rnd w (of_nat g / of_int N) * 50 \<le> 50"
    using r1 by simp
  have c: "0 \<le> rnd w (rnd w (of_nat g / of_int N) * 50)"
    by (rule rnd_nonneg [OF fr b])
  have d: "rnd w (rnd w (of_nat g / of_int N) * 50) \<le> 50"
    using rnd_mono [OF fr b50] fr by (simp add: faithful_rounding_def)
  have "\<lfloor>rnd w (rnd w (of_nat g / of_int N) * 50)\<rfloor> \<le> 50"
    using d by (simp add: floor_le_iff)
  then show ?thesis
    using c by (simp add: loop_progress_def trunc_def)
qed

lemma batches_run_segment:
  assumes fr: "faithful_rounding w"
    and N: "0 < int (len_dataloader w) * E"
    and le: "int (g + k) \<le> int (len_dataloader w) * E"
  shows "run_segment (loop_progress w g (int (len_dataloader w) * E))
           (loop_progress w (g + k) (int (len_dataloader w) * E))
           s (snd (batches w u m tid E ep k g s))"
  using le
proof (induction k arbitrary: g s)
  case 0
  then show ?case by (simp add: run_segment_refl)
next
  case (Suc k)
  let ?N = "int (len_dataloader w) * E"
  have mono1: "loop_progress w g ?N \<le> loop_progress w (Suc g) ?N"
    by (rule loop_progress_mono [OF fr N]) simp
  have mono2: "loop_progress w g ?N \<le> loop_progress w (g + Suc k) ?N"
    by (rule loop_progress_mono [OF fr N]) simp
  show ?case
  proof (cases "fault w (Step (Suc g))")
    case (Some e)
    then show ?thesis
      using mono2 by (simp add: run_segment_refl)
  next
    case None
    define s1 where "s1 =
      (if Suc g mod 10 = 0
       then update_training_status w u m tid ''running'' (loop_progress w (Suc g) ?N)
              (''Training epoch '' @ show_nat (Suc ep) @ ''/'' @ show_int E
                 @ '', step '' @ show_nat (Suc g) @ ''/'' @ show_int ?N
                 @ '', loss: '' @ loss_text w (Suc g))
              None s
       else s)"
    have step: "run_segment (loop_progress w (Suc g) ?N) (loop_progress w (Suc g) ?N) s s1"
      unfolding s1_def by (simp add: run_segment_running run_segment_refl)
    have "int (Suc g + k) \<le> ?N"
      using Suc.prems by simp
    then have rest: "run_segment (loop_progress w (Suc g) ?N) (loop_progress w (Suc g + k) ?N)
        s1 (snd (batches w u m tid E ep k (Suc g) s1))"
      by (rule Suc.IH)
    have "run_segment (loop_progress w (Suc g) ?N) (loop_progress w (Suc g + k) ?N)
        s (snd (batches w u m tid E ep k (Suc g) s1))"
      by (rule run_segment_trans [OF step rest]) simp
    then have "run_segment (loop_progress w g ?N) (loop_progress w (g + Suc k) ?N)
        s (snd (batches w u m tid E ep k (Suc g) s1))"
      using mono1 by (simp add: run_segment_weaken)
    then show ?thesis
      using None by (simp add: s1_def)
  qed
qed

lemma batches_global_step:
  "fst (batches w u m tid E ep k g s) = Inr g' \<Longrightarrow> g' = g + k"
proof (induction k arbitrary: g s)
  case 0
  then show ?case by simp
next
  case (Suc k)
  show ?case
  proof (cases "fault w (Step (Suc g))")
    case (Some e)
    then show ?thesis using Suc.prems by simp
  next
    case None
    then obtain s1 where "fst (batches w u m tid E ep k (Suc g) s1) = Inr g'"
      using Suc.prems by simp
    then have "g' = Suc g + k"
      by (rule Suc.IH)
    then show ?thesis by simp
  qed
qed

lemma epochs_run_segment:
  assumes fr: "faithful_rounding w"
    and N: "0 < int (len_dataloader w) * E"
    and le: "int (g + k * len_dataloader w) \<le> int (len_dataloader w) * E"
  shows "run_segment (loop_progress w g (int (len_dataloader w) * E))
           (loop_progress w (g + k * len_dataloader w) (int (len_dataloader w) * E))
           s (snd (epochs w u m tid E k ep g s))"
  using le
proof (induction k arbitrary: g ep s)
  case 0
  then show ?case by (simp add: run_segment_refl)
next
  case (Suc k)
  let ?N = "int (len_dataloader w) * E"
  let ?L = "len_dataloader w"
  obtain r s1 where b: "batches w u m tid E ep ?L g s = (r, s1)"
    by (cases "batches w u m tid E ep ?L g s")
  have eq: "int (g + Suc k * ?L) = int (g + ?L) + int (k * ?L)"
    by simp
  have "int (g + ?L) \<le> ?N"
    using Suc.prems unfolding eq by linarith
  then have first: "run_segment (loop_progress w g ?N) (loop_progress w (g + ?L) ?N) s s1"
    using batches_run_segment [OF fr N, where g = g and k = "?L" and s = s and u = u and m = m and tid = tid and ep = ep] b by simp
  show ?case
  proof (cases r)
    case (Inl e)
    have "loop_progress w (g + ?L) ?N \<le> loop_progress w (g + Suc k * ?L) ?N"
      by (rule loop_progress_mono [OF fr N]) simp
    then have "run_segment (loop_progress w g ?N) (loop_progress w (g + Suc k * ?L) ?N) s s1"
      using first by (simp add: run_segment_weaken)
    then show ?thesis
      using b Inl by simp
  next
    case (Inr g1)
    have g1: "g1 = g + ?L"
      using batches_global_step [of w u m tid E ep ?L g s g1] b Inr by simp
    have "int (g1 + k * ?L) \<le> ?N"
      using Suc.prems g1 by (simp add: algebra_simps)
    then have rest: "run_segment (loop_progress w g1 ?N) (loop_progress w (g1 + k * ?L) ?N)
        s1 (snd (epochs w u m tid E k (Suc ep) g1 s1))"
      by (rule Suc.IH)
    have "run_segment (loop_progress w g ?N) (loop_progress w (g1 + k * ?L) ?N)
        s (snd (epochs w u m tid E k (Suc ep) g1 s1))"
      by (rule run_segment_trans [OF first rest]) (simp add: g1)
    then show ?thesis
      using b Inr g1 by (simp add: algebra_simps)
  qed
qed

lemma epochs_no_batches:
  "len_dataloader w = 0 \<Longrightarrow> snd (epochs w u m tid E k ep g s) = s"
  by (induction k arbitrary: ep g s) auto

lemma training_loop_run_segment:
  assumes fr: "faithful_rounding w"
  shows "run_segment 40 90 s (snd (epochs w u m tid E (nat E) 0 0 s))"
proof (cases "0 < int (len_dataloader w) * E")
  case True
  then have E: "0 < E"
    by (simp add: zero_less_mult_iff)
  have le: "int (0 + nat E * len_dataloader w) \<le> int (len_dataloader w) * E"
    using E by (simp add: mult.commute)
  have run: "run_segment (loop_progress w 0 (int (len_dataloader w) * E))
          (loop_progress w (0 + nat E * len_dataloader w) (int (len_dataloader w) * E))
          s (snd (epochs w u m tid E (nat E) 0 0 s))"
    by (rule epochs_run_segment [OF fr True le])
  have upper: "loop_progress w (0 + nat E * len_dataloader w) (int (len_dataloader w) * E) \<le> 90"
    by (rule loop_progress_upper [OF fr True le])
  show ?thesis
    by (rule run_segment_weaken [OF run loop_progress_lower [OF fr True] upper])
next
  case False
  then have "len_dataloader w = 0 \<or> E \<le> 0"
    by (auto simp: zero_less_mult_iff)
  then have "snd (epochs w u m tid E (nat E) 0 0 s) = s"
    by (auto simp: epochs_no_batches)
  then show ?thesis
    by (simp add: run_segment_refl)
qed

lemma train_dreambooth_try_run_segment:
  assumes fr: "faithful_rounding w"
  shows "run_segment 15 100 s (snd (train_dreambooth_try w u m tid E s))"
proof -
  define s1 where "s1 = update_training_status w u m tid
    ''running'' 15 ''Loading base Stable Diffusion v1.5 model...'' None s"
  define s2 where "s2 = update_training_status w u m tid
    ''running'' 20 ''Loading model components (UNet, VAE, Text Encoder)...'' None s1"
  define s3 where "s3 = update_training_status w u m tid
    ''running'' 30 ''Preparing training dataset...'' None s2"
  define s4 where "s4 = update_training_status w u m tid
    ''running'' 40 (''Starting training on '' @ show_nat (len_dataset s3 u m) @ '' images...'')
    None s3"
  define s5 where "s5 = snd (epochs w u m tid E (nat E) 0 0 s4)"
  define s6 where "s6 = update_training_status w u m tid
    ''running'' 90 ''Training complete! Saving model...'' None s5"
  define s7 where "s7 = update_training_status w u m tid
    ''completed'' 100
    (''DreamBooth training completed successfully! Model saved to '' @ output_model_dir w u m)
    None s6"
  have e1: "run_segment 15 15 s s1"
    unfolding s1_def by (rule run_segment_running) simp_all
  have "run_segment 20 20 s1 s2"
    unfolding s2_def by (rule run_segment_running) simp_all
  then have e2: "run_segment 15 20 s s2"
    using e1 by (rule run_segment_then) simp
  have "run_segment 30 30 s2 s3"
    unfolding s3_def by (rule run_segment_running) simp_all
  then have e3: "run_segment 15 30 s s3"
    using e2 by (rule run_segment_then) simp
  have "run_segment 40 40 s3 s4"
    unfolding s4_def by (rule run_segment_running) simp_all
  then have e4: "run_segment 15 40 s s4"
    using e3 by (rule run_segment_then) simp
  have "run_segment 40 90 s4 s5"
    unfolding s5_def by (rule training_loop_run_segment [OF fr])
  then have e5: "run_segment 15 90 s s5"
    using e4 by (rule run_segment_then) simp
  have "run_segment 90 90 s5 s6"
    unfolding s6_def by (rule run_segment_running) simp_all
  then have e6: "run_segment 15 90 s s6"
    using e5 by (rule run_segment_then) simp
  have "run_segment 90 100 s6 s7"
    unfolding s7_def by (rule run_segment_completed) simp
  then have e7: "run_segment 15 100 s s7"
    using e6 by (rule run_segment_then) simp
  obtain r5 where ep: "epochs w u m tid E (nat E) 0 0 s4 = (r5, s5)"
    unfolding s5_def by (cases "epochs w u m tid E (nat E) 0 0 s4") simp
  note defs = train_dreambooth_try_def Let_def s1_def s2_def s3_def s4_def s6_def s7_def
  note ep' = ep [unfolded s4_def s3_def s2_def s1_def]
  have w1: "run_segment 15 100 s s1" using e1 by (rule run_segment_weaken) simp_all
  have w2: "run_segment 15 100 s s2" using e2 by (rule run_segment_weaken) simp_all
  have w3: "run_segment 15 100 s s3" using e3 by (rule run_segment_weaken) simp_all
  have w4: "run_segment 15 100 s s4" using e4 by (rule run_segment_weaken) simp_all
  have w5: "run_segment 15 100 s s5" using e5 by (rule run_segment_weaken) simp_all
  have w6: "run_segment 15 100 s s6" using e6 by (rule run_segment_weaken) simp_all
  show ?thesis
  proof (cases "fault w Imports")
    case (Some e)
    then have "snd (train_dreambooth_try w u m tid E s) = s1"
      by (simp add: defs)
    then show ?thesis using w1 by simp
  next
    case f1: None
    show ?thesis
    proof (cases "fault w LoadComponents")
      case (Some e)
      then have "snd (train_dreambooth_try w u m tid E s) = s2"
        using f1 by (simp add: defs)
      then show ?thesis using w2 by simp
    next
      case f2: None
      show ?thesis
      proof (cases "fault w BuildDataset")
        case (Some e)
        then have "snd (train_dreambooth_try w u m tid E s) = s3"
          using f1 f2 by (simp add: defs)
        then show ?thesis using w3 by simp
      next
        case f3: None
        show ?thesis
        proof (cases "fault w Setup")
          case (Some e)
          then have "snd (train_dreambooth_try w u m tid E s) = s4"
            using f1 f2 f3 by (simp add: defs)
          then show ?thesis using w4 by simp
        next
          case f4: None
          show ?thesis
          proof (cases r5)
            case (Inl e)
            then have "snd (train_dreambooth_try w u m tid E s) = s5"
              using f1 f2 f3 f4 ep' by (simp add: defs)
            then show ?thesis using w5 by simp
          next
            case (Inr g)
            show ?thesis
            proof (cases "fault w Save")
              case (Some e)
              then have "snd (train_dreambooth_try w u m tid E s) = s6"
                using f1 f2 f3 f4 ep' Inr by (simp add: defs)
              then show ?thesis using w6 by simp
            next
              case None
              then have "snd (train_dreambooth_try w u m tid E s) = s7"
                using f1 f2 f3 f4 ep' Inr by (simp add: defs)
              then show ?thesis using e7 by simp
            qed
          qed
        qed
      qed
    qed
  qed
qed

lemma train_dreambooth_run_segment:
  assumes fr: "faithful_rounding w"
  shows "run_segment 15 100 s (snd (train_dreambooth w u m tid E s))"
proof -
  obtain r s1 where t: "train_dreambooth_try w u m tid E s = (r, s1)"
    by (cases "train_dreambooth_try w u m tid E s")
  have e: "run_segment 15 100 s s1"
    using train_dreambooth_try_run_segment [OF fr, where s = s and u = u and m = m and tid = tid and E = E] t by simp
  show ?thesis
  proof (cases r)
    case (Inl x)
    have "run_segment 100 100 s1 (update_training_status w u m tid
        ''failed'' 0 ''Training failed'' (Some (str_of x)) s1)"
      by (rule run_segment_failed) simp
    then have "run_segment 15 100 s (update_training_status w u m tid
        ''failed'' 0 ''Training failed'' (Some (str_of x)) s1)"
      using e by (rule run_segment_then) simp
    then show ?thesis
      using t Inl by (simp add: train_dreambooth_def)
  next
    case (Inr x)
    then show ?thesis
      using t e by (simp add: train_dreambooth_def)
  qed
qed

lemma train_lora_run_segment:
  "run_segment 15 100 s (snd (train_lora w u m tid s))"
proof -
  define s1 where "s1 = update_training_status w u m tid
    ''running'' 15 ''Loading base model...'' None s"
  define s2 where "s2 = update_training_status w u m tid
    ''running'' 20 ''Training in progress (this may take 30-60 minutes)...'' None s1"
  define s3 where "s3 = update_training_status w u m tid
    ''completed'' 100 (''Training completed! Model saved to '' @ output_model_dir w u m) None s2"
  have e1: "run_segment 15 15 s s1"
    unfolding s1_def by (rule run_segment_running) simp_all
  have "run_segment 20 20 s1 s2"
    unfolding s2_def by (rule run_segment_running) simp_all
  then have e2: "run_segment 15 20 s s2"
    using e1 by (rule run_segment_then) simp
  have "run_segment 20 100 s2 s3"
    unfolding s3_def by (rule run_segment_completed) simp
  then have e3: "run_segment 15 100 s s3"
    using e2 by (rule run_segment_then) simp
  then show ?thesis
    by (simp add: train_lora_def Let_def s1_def s2_def s3_def)
qed

lemma start_training_try_run_segment:
  assumes fr: "faithful_rounding w"
  shows "run_segment 5 100 s (snd (start_training_try w u m tid E use_lora s))"
proof -
  define s1 where "s1 = update_training_status w u m tid
    ''running'' 5 ''Initializing training environment...'' None s"
  have e1: "run_segment 5 5 s s1"
    unfolding s1_def by (rule run_segment_running) simp_all
  then have e1': "run_segment 5 100 s s1"
    by (rule run_segment_weaken) simp_all
  have e2: "run_segment 5 10 s (update_training_status w u m tid ''running'' 10 msg None s1)"
    for msg
  proof -
    have "run_segment 10 10 s1 (update_training_status w u m tid ''running'' 10 msg None s1)"
      by (rule run_segment_running) simp_all
    then show ?thesis
      using e1 by (rule run_segment_then) simp
  qed
  have lora: "run_segment 5 100 s
      (snd (train_lora w u m tid (update_training_status w u m tid ''running'' 10 msg None s1)))"
    for msg
    using train_lora_run_segment e2 by (rule run_segment_then) simp
  have dreambooth: "run_segment 5 100 s
      (snd (train_dreambooth w u m tid E
             (update_training_status w u m tid ''running'' 10 msg None s1)))"
    for msg
    using train_dreambooth_run_segment [OF fr] e2 by (rule run_segment_then) simp
  show ?thesis
  proof (cases "map_of (files s1) (u, m)")
    case None
    then show ?thesis
      using e1' by (simp add: start_training_try_def Let_def flip: s1_def)
  next
    case (Some d)
    show ?thesis
    proof (cases "count_images (images d) < 10")
      case True
      then show ?thesis
        using e1' Some by (simp add: start_training_try_def Let_def flip: s1_def)
    next
      case False
      show ?thesis
      proof (cases "fault w Mkdir")
        case None
        then show ?thesis
          using Some False lora dreambooth
          by (simp add: start_training_try_def Let_def flip: s1_def)
      next
        case (Some e)
        then show ?thesis
          using e1' \<open>map_of (files s1) (u, m) = Some d\<close> False
          by (simp add: start_training_try_def Let_def flip: s1_def)
      qed
    qed
  qed
qed

lemma start_training_run_segment:
  assumes fr: "faithful_rounding w"
  shows "run_segment 5 100 s (snd (start_training w u m tid E use_lora s))"
proof -
  obtain r s1 where t: "start_training_try w u m tid E use_lora s = (r, s1)"
    by (cases "start_training_try w u m tid E use_lora s")
  have e: "run_segment 5 100 s s1"
    using start_training_try_run_segment [OF fr, where s = s and u = u and m = m and tid = tid and E = E and use_lora = use_lora] t by simp
  show ?thesis
  proof (cases r)
    case (Inl x)
    have "run_segment 100 100 s1 (update_training_status w u m tid
        ''failed'' 0 ''Training failed'' (Some (str_of x)) s1)"
      by (rule run_segment_failed) simp
    then have "run_segment 5 100 s (update_training_status w u m tid
        ''failed'' 0 ''Training failed'' (Some (str_of x)) s1)"
      using e by (rule run_segment_then) simp
    then show ?thesis
      using t Inl by (simp add: start_training_def)
  next
    case (Inr x)
    then show ?thesis
      using t e by (simp add: start_training_def)
  qed
qed

text \<open>
  C7: under the floating point arithmetic described by \<open>faithful_rounding\<close>, the log
  lines a call of \<^verbatim>\<open>start_training\<close> adds (with either training method, whatever fails
  on the way) report, in their updates with status \<^verbatim>\<open>running\<close>, progress values that
  never decrease from one update to the next and lie between 0 and 100; and each update
  with status \<^verbatim>\<open>completed\<close> reports progress 100.
\<close>

theorem start_training_progress_monotone:
  assumes "faithful_rounding w"
  shows "(let s' = snd (start_training w user_id model_identifier training_id num_train_epochs
                          use_lora s);
              new = drop (length (logged s)) (logged s')
          in logged s' = logged s @ new
           \<and> sorted (running_progress new)
           \<and> (\<forall>p \<in> set (running_progress new). 0 \<le> p \<and> p \<le> 100)
           \<and> (\<forall>p \<in> set (completed_progress new). p = 100))"
  using start_training_run_segment [OF assms, where s = s and u = user_id
      and m = model_identifier and tid = training_id and E = num_train_epochs
      and use_lora = use_lora]
  unfolding run_segment_def Let_def by fastforce

lemma ready_run_log:
  "logged (snd (start_training test_env ''user_123'' ''aurel_person'' ''train_ab12cd34'' 3 True
                  ready_service)) =
     [StatusLogged ''train_ab12cd34'' ''running'' 5 ''Initializing training environment...'',
      StatusLogged ''train_ab12cd34'' ''running'' 10 ''Preparing to train with 10 images...'',
      StatusLogged ''train_ab12cd34'' ''running'' 15 ''Loading base model...'',
      StatusLogged ''train_ab12cd34'' ''running'' 20
        ''Training in progress (this may take 30-60 minutes)...'',
      StatusLogged ''train_ab12cd34'' ''completed'' 100
        ''Training completed! Model saved to /data/users/user_123/models/aurel_person'']"
  by code_simp

lemma faithful_rounding_test_env: "faithful_rounding test_env"
  by (simp add: faithful_rounding_def test_env_def)

lemma logged_ready_service: "logged ready_service = []"
  by (simp add: ready_service_def)

theorem start_training_progress_monotone_witness:
  "faithful_rounding test_env
   \<and> logged (snd (start_training test_env ''user_123'' ''aurel_person'' ''train_ab12cd34'' 3 True
                     ready_service))
       = logged ready_service @
         [StatusLogged ''train_ab12cd34'' ''running'' 5 ''Initializing training environment...'',
          StatusLogged ''train_ab12cd34'' ''running'' 10 ''Preparing to train with 10 images...'',
          StatusLogged ''train_ab12cd34'' ''running'' 15 ''Loading base model...'',
          StatusLogged ''train_ab12cd34'' ''running'' 20
            ''Training in progress (this may take 30-60 minutes)...'',
          StatusLogged ''train_ab12cd34'' ''completed'' 100
            ''Training completed! Model saved to /data/users/user_123/models/aurel_person'']
   \<and> sorted (running_progress (drop (length (logged ready_service))
         (logged (snd (start_training test_env ''user_123'' ''aurel_person'' ''train_ab12cd34'' 3 True
                     ready_service)))))
   \<and> running_progress (drop (length (logged ready_service))
         (logged (snd (start_training test_env ''user_123'' ''aurel_person'' ''train_ab12cd34'' 3 True
                     ready_service)))) = [5, 10, 15, 20]
   \<and> completed_progress (drop (length (logged ready_service))
         (logged (snd (start_training test_env ''user_123'' ''aurel_person'' ''train_ab12cd34'' 3 True
                     ready_service)))) = [100]"
  using faithful_rounding_test_env
    start_training_progress_monotone [OF faithful_rounding_test_env, of "''user_123''"
      "''aurel_person''" "''train_ab12cd34''" 3 True ready_service]
  by (simp add: Let_def ready_run_log logged_ready_service)

text \<open>
  C2, as stated, on the request without images: the \<^verbatim>\<open>try\<close> of \<^verbatim>\<open>start_training\<close>
  reports the job running with progress 5 and then raises, since there are fewer than
  ten images; after the \<^verbatim>\<open>except\<close> the record says \<^verbatim>\<open>failed\<close> and its progress is 0,
  not 5.
\<close>

theorem start_training_failure_counterexample:
  "fst (start_training_try test_env ''user_123'' ''aurel_person'' ''train_ab12cd34'' 100 False
          pending_service) = Inl (ValueError ''Insufficient training images: 0 < 10'')
   \<and> dict_get (custom_at (snd (start_training_try test_env ''user_123'' ''aurel_person''
         ''train_ab12cd34'' 100 False pending_service)) ''user_123'' ''aurel_person'') ''status''
       = JStr ''running''
   \<and> dict_get (custom_at (snd (start_training_try test_env ''user_123'' ''aurel_person''
         ''train_ab12cd34'' 100 False pending_service)) ''user_123'' ''aurel_person'') ''progress''
       = JInt 5
   \<and> dict_get (custom_at (snd (start_training test_env ''user_123'' ''aurel_person''
         ''train_ab12cd34'' 100 False pending_service)) ''user_123'' ''aurel_person'') ''status''
       = JStr ''failed''
   \<and> dict_get (custom_at (snd (start_training test_env ''user_123'' ''aurel_person''
         ''train_ab12cd34'' 100 False pending_service)) ''user_123'' ''aurel_person'') ''progress''
       = JInt 0"
  by code_simp

text \<open>
  C2, amended: when the \<^verbatim>\<open>try\<close> of \<^verbatim>\<open>start_training\<close> raises while the job's metadata
  file exists, the call raises the same exception and the orchestrator has recorded the
  failure: in the durable record the status is \<^verbatim>\<open>failed\<close>, the progress is set to 0
  whatever it was, \<^verbatim>\<open>completed_at\<close> is the reading of the clock that follows the one
  taken for \<^verbatim>\<open>last_updated\<close>, and \<^verbatim>\<open>error\<close> holds the description of the exception when
  that is not empty (an empty description leaves the field as it was); the entry of the
  in-memory index says \<^verbatim>\<open>failed\<close> with progress 0.
\<close>

theorem start_training_records_failure:
  assumes "start_training_try w user_id model_identifier training_id num_train_epochs use_lora s
             = (Inl e, s1)"
    and "metadata_at s1 user_id model_identifier = Some md"
  shows "(let s' = snd (start_training w user_id model_identifier training_id num_train_epochs
                          use_lora s);
              cm' = custom_at s' user_id model_identifier
          in fst (start_training w user_id model_identifier training_id num_train_epochs
                    use_lora s) = Inl e
           \<and> map_of cm' ''status'' = Some (JStr ''failed'')
           \<and> map_of cm' ''progress'' = Some (JInt 0)
           \<and> map_of cm' ''completed_at'' = Some (JStr (now w (Suc (ticks s1))))
           \<and> map_of cm' ''error'' =
                (if str_of e \<noteq> [] then Some (JStr (str_of e))
                 else map_of (custom_or_empty md) ''error'')
           \<and> map_of (active_jobs s') training_id =
                Some [(''training_id'', JStr training_id),
                      (''status'', JStr ''failed''),
                      (''progress'', JInt 0),
                      (''message'', JStr ''Training failed''),
                      (''model_identifier'', JStr model_identifier),
                      (''user_id'', JStr user_id)])"
  unfolding Let_def start_training_def assms(1)
  by (simp add: custom_at_update [OF assms(2)] active_jobs_update [OF assms(2)] stored_status
      stored_progress stored_completed_at_failed stored_error_cases)

theorem start_training_records_failure_witness:
  "start_training_try test_env ''user_123'' ''aurel_person'' ''train_ab12cd34'' 100 False
       pending_service
     = (Inl (ValueError ''Insufficient training images: 0 < 10''), started_service)
   \<and> metadata_at started_service ''user_123'' ''aurel_person'' =
       Some \<lparr>toplevel = [(''user_id'', JStr ''user_123''),
                         (''model_identifier'', JStr ''aurel_person'')],
             custom_metadata = Some [(''training_id'', JStr ''train_ab12cd34''),
                                     (''status'', JStr ''running''),
                                     (''progress'', JInt 5),
                                     (''message'', JStr ''Initializing training environment...''),
                                     (''last_updated'', JStr ''T0''),
                                     (''started_at'', JStr ''T1'')]\<rparr>
   \<and> fst (start_training test_env ''user_123'' ''aurel_person'' ''train_ab12cd34'' 100 False
            pending_service) = Inl (ValueError ''Insufficient training images: 0 < 10'')
   \<and> map_of (custom_at (snd (start_training test_env ''user_123'' ''aurel_person''
         ''train_ab12cd34'' 100 False pending_service)) ''user_123'' ''aurel_person'') ''status''
       = Some (JStr ''failed'')
   \<and> map_of (custom_at (snd (start_training test_env ''user_123'' ''aurel_person''
         ''train_ab12cd34'' 100 False pending_service)) ''user_123'' ''aurel_person'') ''progress''
       = Some (JInt 0)
   \<and> map_of (custom_at (snd (start_training test_env ''user_123'' ''aurel_person''
         ''train_ab12cd34'' 100 False pending_service)) ''user_123'' ''aurel_person'') ''error''
       = Some (JStr ''Insufficient training images: 0 < 10'')"
proof -
  have a: "start_training_try test_env ''user_123'' ''aurel_person'' ''train_ab12cd34'' 100 False
       pending_service
     = (Inl (ValueError ''Insufficient training images: 0 < 10''), started_service)"
    by code_simp
  have b: "metadata_at started_service ''user_123'' ''aurel_person'' =
       Some \<lparr>toplevel = [(''user_id'', JStr ''user_123''),
                         (''model_identifier'', JStr ''aurel_person'')],
             custom_metadata = Some [(''training_id'', JStr ''train_ab12cd34''),
                                     (''status'', JStr ''running''),
                                     (''progress'', JInt 5),
                                     (''message'', JStr ''Initializing training environment...''),
                                     (''last_updated'', JStr ''T0''),
                                     (''started_at'', JStr ''T1'')]\<rparr>"
    by code_simp
  show ?thesis
    using a b start_training_records_failure [OF a b]
    by (simp add: Let_def)
qed

end
